theory Spec2Isabelle
  imports Complex_Main
begin

section \<open>Data model of assignmentManager.js\<close>

text \<open>
  JavaScript numbers are modelled as exact reals: grades produced by the program are the
  integers 0..100 and their means are rationals. Rounding and the non-finite values
  (NaN, the infinities) are outside the model. A value that may be a number or not
  (\<open>null\<close>, \<open>undefined\<close>, anything whose \<open>typeof\<close> is not \<open>"number"\<close>) is a
  \<open>real option\<close>, \<open>None\<close> standing for every non-number.
\<close>

record assignment =
  assignmentName :: string
  status :: string
  grade :: "real option"
  isSubmitted :: bool

text \<open>The constructor of class Assignment.\<close>

definition Assignment :: "string \<Rightarrow> assignment" where
  "Assignment n =
     \<lparr>assignmentName = n, status = ''not assigned'', grade = None, isSubmitted = False\<rparr>"

text \<open>Assignment.setGrade: stores the grade, then status is pass strictly over 50.\<close>

definition setGrade :: "assignment \<Rightarrow> real \<Rightarrow> assignment" where
  "setGrade a g = a\<lparr>grade := Some g, status := (if g > 50 then ''pass'' else ''fail'')\<rparr>"

text \<open>
  What a caller passed as observer: nothing (a falsy value), an object whose \<open>notify\<close> is
  not a function, or an instance of class Observer. The guard
  \<open>this._observer && typeof this._observer.notify === "function"\<close> is \<open>hasNotify\<close>.
  Observers of other classes, whose \<open>notify\<close> could run any code, are outside the model.
\<close>

datatype observer = Absent | Malformed | Observer

fun hasNotify :: "observer \<Rightarrow> bool" where
  "hasNotify Observer = True"
| "hasNotify _ = False"

record student =
  fullName :: string
  email :: string
  assignmentStatuses :: "assignment list"
  overallGrade :: "real option"
  studentObserver :: observer

text \<open>The constructor of class Student.\<close>

definition Student :: "string \<Rightarrow> string \<Rightarrow> observer \<Rightarrow> student" where
  "Student n e ob =
     \<lparr>fullName = n, email = e, assignmentStatuses = [], overallGrade = None,
      studentObserver = ob\<rparr>"

text \<open>
  A ClassList holds references to Student objects: addresses into the store of students.
\<close>

record classList =
  students :: "nat list"
  classListObserver :: observer

definition ClassList :: "observer \<Rightarrow> classList" where
  "ClassList ob = \<lparr>students = [], classListObserver = ob\<rparr>"

text \<open>
  The deferred callbacks handed to \<open>setTimeout\<close>. Each closure captures objects by
  reference: a student is its address in the store, an assignment is its owner's address
  and its position in the owner's \<open>assignmentStatuses\<close> (the array only ever grows by
  \<open>push\<close>, so a position names one object for ever), a promise is its address.
  \<^item> \<open>AutoSubmit r i n\<close>: the callback of startWorking (student, assignment, name);
  \<^item> \<open>Grading r i\<close>: the callback of submitAssignment (student, assignment);
  \<^item> \<open>Release c n p\<close>: the callback of releaseAssignmentsParallel (class list, name,
    the promise it resolves).
\<close>

datatype timer = AutoSubmit nat nat string | Grading nat nat | Release nat string nat

text \<open>
  The whole state: the stores of Student, ClassList and Promise objects (a promise is its
  resolved flag), the callbacks still pending, and the lines written by \<open>console.log\<close>.
\<close>

record world =
  studentObjs :: "student list"
  classListObjs :: "classList list"
  promiseObjs :: "bool list"
  timerQueue :: "timer list"
  console :: "string list"

definition emptyWorld :: world where
  "emptyWorld =
     \<lparr>studentObjs = [], classListObjs = [], promiseObjs = [], timerQueue = [], console = []\<rparr>"

section \<open>Observer\<close>

text \<open>The character U+2192 of the message templates, in UTF-8.\<close>

definition arrow :: string where
  "arrow = [CHR 0xE2, CHR 0x86, CHR 0x92]"

text \<open>The switch of Observer.notify on the status, with its default case.\<close>

definition notifyMessage :: "string \<Rightarrow> string \<Rightarrow> string \<Rightarrow> string" where
  "notifyMessage studentName aName st =
     ''Observer '' @ arrow @ '' '' @
     (if st = ''released'' then studentName @ '', '' @ aName @ '' has been released.''
      else if st = ''working'' then studentName @ '' is working on '' @ aName @ ''.''
      else if st = ''submitted'' then studentName @ '' has submitted '' @ aName @ ''.''
      else if st = ''pass'' then studentName @ '' has passed '' @ aName
      else if st = ''fail'' then studentName @ '' has failed '' @ aName
      else if st = ''final reminder''
        then ''Reminder for '' @ studentName @ '': '' @ aName @ '' is due soon.''
      else studentName @ '', '' @ aName @ '' status is '' @ st @ ''.'')"

definition Observer_notify :: "student \<Rightarrow> assignment \<Rightarrow> world \<Rightarrow> world" where
  "Observer_notify s a w =
     w\<lparr>console := console w @ [notifyMessage (fullName s) (assignmentName a) (status a)]\<rparr>"

section \<open>Student\<close>

text \<open>Writes through a reference: to a student in the store, to one of its assignments.\<close>

definition modifyStudent :: "nat \<Rightarrow> (student \<Rightarrow> student) \<Rightarrow> world \<Rightarrow> world" where
  "modifyStudent r f w = w\<lparr>studentObjs := (studentObjs w)[r := f (studentObjs w ! r)]\<rparr>"

definition modifyAssignment :: "nat \<Rightarrow> (assignment \<Rightarrow> assignment) \<Rightarrow> student \<Rightarrow> student" where
  "modifyAssignment i f s =
     s\<lparr>assignmentStatuses := (assignmentStatuses s)[i := f (assignmentStatuses s ! i)]\<rparr>"

definition pushAssignment :: "assignment \<Rightarrow> student \<Rightarrow> student" where
  "pushAssignment a s = s\<lparr>assignmentStatuses := assignmentStatuses s @ [a]\<rparr>"

definition setFullName :: "nat \<Rightarrow> string \<Rightarrow> world \<Rightarrow> world" where
  "setFullName r n w = modifyStudent r (\<lambda>s. s\<lparr>fullName := n\<rparr>) w"

definition setEmail :: "nat \<Rightarrow> string \<Rightarrow> world \<Rightarrow> world" where
  "setEmail r e w = modifyStudent r (\<lambda>s. s\<lparr>email := e\<rparr>) w"

text \<open>Array.prototype.find, returning the position of the first match as the reference.\<close>

fun findIndex :: "('a \<Rightarrow> bool) \<Rightarrow> 'a list \<Rightarrow> nat option" where
  "findIndex P [] = None"
| "findIndex P (x # xs) = (if P x then Some 0 else map_option Suc (findIndex P xs))"

text \<open>Student._findAssignment.\<close>

definition findAssignment :: "student \<Rightarrow> string \<Rightarrow> nat option" where
  "findAssignment s n = findIndex (\<lambda>a. assignmentName a = n) (assignmentStatuses s)"

text \<open>Student._notifyObserver, for the assignment at position i of student r.\<close>

definition notifyObserver :: "nat \<Rightarrow> nat \<Rightarrow> world \<Rightarrow> world" where
  "notifyObserver r i w =
     (let s = studentObjs w ! r in
      if hasNotify (studentObserver s) then Observer_notify s (assignmentStatuses s ! i) w
      else w)"

text \<open>
  Student.updateAssignmentStatus(name, grade): the grade argument is \<open>Some g\<close> when
  \<open>typeof grade === "number"\<close>.
\<close>

definition updateAssignmentStatus :: "nat \<Rightarrow> string \<Rightarrow> real option \<Rightarrow> world \<Rightarrow> world" where
  "updateAssignmentStatus r n g w =
     (let s = studentObjs w ! r;
          i = (case findAssignment s n of
                 Some j \<Rightarrow> j | None \<Rightarrow> length (assignmentStatuses s));
          w1 = (case findAssignment s n of
                  Some j \<Rightarrow> w
                | None \<Rightarrow>
                    modifyStudent r (pushAssignment ((Assignment n)\<lparr>status := ''released''\<rparr>)) w);
          w2 = (case g of
                  Some v \<Rightarrow> modifyStudent r (modifyAssignment i (\<lambda>a. setGrade a v)) w1
                | None \<Rightarrow> w1)
      in notifyObserver r i w2)"

text \<open>Student.getAssignmentStatus.\<close>

definition getAssignmentStatus :: "student \<Rightarrow> string \<Rightarrow> string" where
  "getAssignmentStatus s n =
     (case findAssignment s n of
        None \<Rightarrow> ''Hasn't been assigned''
      | Some i \<Rightarrow>
          (let a = assignmentStatuses s ! i in
           if status a = ''pass'' then ''Pass''
           else if status a = ''fail'' then ''Fail''
           else status a))"

text \<open>Student.startWorking: the body up to \<open>setTimeout\<close>, which queues the callback.\<close>

definition startWorking :: "nat \<Rightarrow> string \<Rightarrow> world \<Rightarrow> world" where
  "startWorking r n w =
     (let s = studentObjs w ! r;
          i = (case findAssignment s n of
                 Some j \<Rightarrow> j | None \<Rightarrow> length (assignmentStatuses s));
          w1 = (case findAssignment s n of
                  Some j \<Rightarrow> w
                | None \<Rightarrow> modifyStudent r (pushAssignment (Assignment n)) w);
          w2 = modifyStudent r (modifyAssignment i (\<lambda>a. a\<lparr>status := ''working''\<rparr>)) w1;
          w3 = notifyObserver r i w2
      in w3\<lparr>timerQueue := timerQueue w3 @ [AutoSubmit r i n]\<rparr>)"

text \<open>Student.submitAssignment, with its early return on \<open>isSubmitted\<close>.\<close>

definition submitAssignment :: "nat \<Rightarrow> string \<Rightarrow> world \<Rightarrow> world" where
  "submitAssignment r n w =
     (let s = studentObjs w ! r;
          i = (case findAssignment s n of
                 Some j \<Rightarrow> j | None \<Rightarrow> length (assignmentStatuses s));
          w1 = (case findAssignment s n of
                  Some j \<Rightarrow> w
                | None \<Rightarrow> modifyStudent r (pushAssignment (Assignment n)) w)
      in if isSubmitted (assignmentStatuses (studentObjs w1 ! r) ! i) then w1
         else
           (let w2 = modifyStudent r
                       (modifyAssignment i (\<lambda>a. a\<lparr>isSubmitted := True, status := ''submitted''\<rparr>)) w1;
                w3 = notifyObserver r i w2
            in w3\<lparr>timerQueue := timerQueue w3 @ [Grading r i]\<rparr>))"

text \<open>
  Student.getGrade: \<open>filter\<close>, then \<open>reduce\<close> from 0 (a left fold), then the division;
  the result is stored in \<open>overallGrade\<close> and returned.
\<close>

definition getGrade :: "nat \<Rightarrow> world \<Rightarrow> world \<times> real option" where
  "getGrade r w =
     (let gradedAssignments =
            filter (\<lambda>a. grade a \<noteq> None) (assignmentStatuses (studentObjs w ! r))
      in if length gradedAssignments = 0
         then (modifyStudent r (\<lambda>s. s\<lparr>overallGrade := None\<rparr>) w, None)
         else
           (let total = foldl (\<lambda>sum a. sum + the (grade a)) 0 gradedAssignments;
                average = total / real (length gradedAssignments)
            in (modifyStudent r (\<lambda>s. s\<lparr>overallGrade := Some average\<rparr>) w, Some average)))"

section \<open>ClassList\<close>

definition modifyClassList :: "nat \<Rightarrow> (classList \<Rightarrow> classList) \<Rightarrow> world \<Rightarrow> world" where
  "modifyClassList c f w = w\<lparr>classListObjs := (classListObjs w)[c := f (classListObjs w ! c)]\<rparr>"

text \<open>The students of class list c, dereferenced.\<close>

definition roster :: "nat \<Rightarrow> world \<Rightarrow> student list" where
  "roster c w = map (\<lambda>r. studentObjs w ! r) (students (classListObjs w ! c))"

definition addStudent :: "nat \<Rightarrow> nat \<Rightarrow> world \<Rightarrow> world" where
  "addStudent c r w =
     (let w1 = modifyClassList c (\<lambda>l. l\<lparr>students := students l @ [r]\<rparr>) w
      in w1\<lparr>console := console w1 @
              [fullName (studentObjs w ! r) @ '' has been added to the classlist.'']\<rparr>)"

definition removeStudent :: "nat \<Rightarrow> nat \<Rightarrow> world \<Rightarrow> world" where
  "removeStudent c r w =
     modifyClassList c (\<lambda>l. l\<lparr>students := filter (\<lambda>s. s \<noteq> r) (students l)\<rparr>) w"

definition findStudentByName :: "nat \<Rightarrow> string \<Rightarrow> world \<Rightarrow> nat option" where
  "findStudentByName c n w =
     List.find (\<lambda>r. fullName (studentObjs w ! r) = n) (students (classListObjs w ! c))"

text \<open>
  ClassList.findOutstandingAssignments. The body of the first \<open>forEach\<close> is
  \<open>scanForName\<close>, acting on the two variables it updates; the body of the second is
  \<open>scanFallback\<close>.
\<close>

definition scanForName :: "string \<Rightarrow> student \<Rightarrow> string list \<times> bool \<Rightarrow> string list \<times> bool" where
  "scanForName n s acc =
     (case List.find (\<lambda>a. assignmentName a = n) (assignmentStatuses s) of
        None \<Rightarrow> acc
      | Some a \<Rightarrow>
          (let anySubmittedForName =
                 (if status a = ''submitted'' \<or> status a = ''pass'' \<or> status a = ''fail''
                  then True else snd acc);
               outstandingForName =
                 (if status a \<noteq> ''submitted'' \<and> status a \<noteq> ''pass'' \<and> status a \<noteq> ''fail''
                  then fst acc @ [fullName s] else fst acc)
           in (outstandingForName, anySubmittedForName)))"

definition scanFallback :: "student \<Rightarrow> string list \<Rightarrow> string list" where
  "scanFallback s fallback =
     (let hasOutstanding =
            list_ex (\<lambda>a. status a = ''released'' \<or> status a = ''working'') (assignmentStatuses s)
      in if hasOutstanding then fallback @ [fullName s] else fallback)"

definition findOutstandingAssignments :: "nat \<Rightarrow> string \<Rightarrow> world \<Rightarrow> string list" where
  "findOutstandingAssignments c n w =
     (let scanned = fold (scanForName n) (roster c w) ([], False)
      in if snd scanned then fst scanned
         else fold scanFallback (roster c w) [])"

text \<open>
  ClassList.releaseAssignmentsParallel: for each name a new promise whose executor queues
  the callback; the result of \<open>Promise.all\<close> is represented by the promises it waits for,
  and is resolved when all of them are.
\<close>

definition releaseOne :: "nat \<Rightarrow> string \<Rightarrow> world \<times> nat list \<Rightarrow> world \<times> nat list" where
  "releaseOne c n acc =
     (let w = fst acc; p = length (promiseObjs w)
      in (w\<lparr>promiseObjs := promiseObjs w @ [False],
            timerQueue := timerQueue w @ [Release c n p]\<rparr>,
          snd acc @ [p]))"

definition releaseAssignmentsParallel :: "nat \<Rightarrow> string list \<Rightarrow> world \<Rightarrow> world \<times> nat list" where
  "releaseAssignmentsParallel c assignmentNames w = fold (releaseOne c) assignmentNames (w, [])"


text \<open>The body of the \<open>forEach\<close> of ClassList.sendReminder, for the student at address r.\<close>

definition remindStudent :: "nat \<Rightarrow> string \<Rightarrow> nat \<Rightarrow> world \<Rightarrow> world" where
  "remindStudent c n r w =
     (let s = studentObjs w ! r in
      case findAssignment s n of
        None \<Rightarrow> w
      | Some i \<Rightarrow>
          (let a = assignmentStatuses s ! i in
           if status a = ''pass'' \<or> status a = ''fail'' then w
           else
             (let w1 = modifyStudent r
                         (modifyAssignment i (\<lambda>a. a\<lparr>status := ''final reminder''\<rparr>)) w;
                  w2 = (if hasNotify (classListObserver (classListObjs w1 ! c))
                        then Observer_notify (studentObjs w1 ! r)
                               (assignmentStatuses (studentObjs w1 ! r) ! i) w1
                        else w1)
              in submitAssignment r n w2)))"

definition sendReminder :: "nat \<Rightarrow> string \<Rightarrow> world \<Rightarrow> world" where
  "sendReminder c n w = fold (remindStudent c n) (students (classListObjs w ! c)) w"

section \<open>Deferred callbacks\<close>

text \<open>
  The three callbacks. The second argument of \<open>runTimer\<close> is the value of
  \<open>Math.floor(Math.random() * 101)\<close> drawn by a grading callback, an integer in 0..100.
\<close>

fun runTimer :: "timer \<Rightarrow> nat \<Rightarrow> world \<Rightarrow> world" where
  "runTimer (AutoSubmit r i n) g w =
     (let a = assignmentStatuses (studentObjs w ! r) ! i in
      if \<not> isSubmitted a \<and> status a \<noteq> ''pass'' \<and> status a \<noteq> ''fail''
      then submitAssignment r n w else w)"
| "runTimer (Grading r i) g w =
     (let w1 = modifyStudent r (modifyAssignment i (\<lambda>a. setGrade a (real g))) w;
          w2 = fst (getGrade r w1)
      in notifyObserver r i w2)"
| "runTimer (Release c n p) g w =
     (let w1 = fold (\<lambda>r. updateAssignmentStatus r n None) (students (classListObjs w ! c)) w
      in w1\<lparr>promiseObjs := (promiseObjs w1)[p := True]\<rparr>)"

text \<open>
  The event loop takes the pending callback at position k off the queue and runs it. The
  delays (500 ms, 0 ms) are not modelled: any pending callback can be the next to run,
  which covers every order in which the timers can expire.
\<close>

definition fireTimer :: "nat \<Rightarrow> nat \<Rightarrow> world \<Rightarrow> world" where
  "fireTimer k g w =
     (if k < length (timerQueue w)
      then runTimer (timerQueue w ! k) g
             (w\<lparr>timerQueue := take k (timerQueue w) @ drop (Suc k) (timerQueue w)\<rparr>)
      else w)"

section \<open>Executions\<close>

text \<open>
  What a client and the event loop can do: construct objects, call the public methods
  that change state, and let a pending callback fire. An action that names an object
  that was never constructed is not an execution of the program and changes nothing.
\<close>

datatype action =
    NewStudent string string observer
  | NewClassList observer
  | SetFullName nat string
  | SetEmail nat string
  | UpdateAssignmentStatus nat string "real option"
  | StartWorking nat string
  | SubmitAssignment nat string
  | GetGrade nat
  | AddStudent nat nat
  | RemoveStudent nat nat
  | ReleaseAssignmentsParallel nat "string list"
  | SendReminder nat string
  | Fire nat nat

fun perform :: "action \<Rightarrow> world \<Rightarrow> world" where
  "perform (NewStudent n e ob) w = w\<lparr>studentObjs := studentObjs w @ [Student n e ob]\<rparr>"
| "perform (NewClassList ob) w = w\<lparr>classListObjs := classListObjs w @ [ClassList ob]\<rparr>"
| "perform (SetFullName r n) w = (if r < length (studentObjs w) then setFullName r n w else w)"
| "perform (SetEmail r e) w = (if r < length (studentObjs w) then setEmail r e w else w)"
| "perform (UpdateAssignmentStatus r n g) w =
     (if r < length (studentObjs w) then updateAssignmentStatus r n g w else w)"
| "perform (StartWorking r n) w = (if r < length (studentObjs w) then startWorking r n w else w)"
| "perform (SubmitAssignment r n) w =
     (if r < length (studentObjs w) then submitAssignment r n w else w)"
| "perform (GetGrade r) w = (if r < length (studentObjs w) then fst (getGrade r w) else w)"
| "perform (AddStudent c r) w =
     (if c < length (classListObjs w) \<and> r < length (studentObjs w) then addStudent c r w else w)"
| "perform (RemoveStudent c r) w =
     (if c < length (classListObjs w) then removeStudent c r w else w)"
| "perform (ReleaseAssignmentsParallel c ns) w =
     (if c < length (classListObjs w) then fst (releaseAssignmentsParallel c ns w) else w)"
| "perform (SendReminder c n) w =
     (if c < length (classListObjs w) then sendReminder c n w else w)"
| "perform (Fire k g) w = (if g \<le> 100 then fireTimer k g w else w)"

definition run :: "action list \<Rightarrow> world \<Rightarrow> world" where
  "run acts w = fold perform acts w"

section \<open>Specification-level notions\<close>

text \<open>
  The definitions of this section are not code of the program. They describe what one
  method does to the one student it is called on, name the invariants of the store, and
  restate in the specification's words what the program's loops compute. The lemmas of the
  next section connect them to the embedding above.
\<close>

text \<open>The assignment that updateAssignmentStatus creates for a name it does not find.\<close>

definition released :: "string \<Rightarrow> assignment" where
  "released n = (Assignment n)\<lparr>status := ''released''\<rparr>"

text \<open>
  What updateAssignmentStatus, startWorking and submitAssignment do to the student they
  are called on (lemmas \<open>updateAssignmentStatus_students\<close>, \<open>startWorking_students\<close>,
  \<open>submitAssignment_students\<close>).
\<close>

definition updS :: "string \<Rightarrow> real option \<Rightarrow> student \<Rightarrow> student" where
  "updS n g s =
     (case findAssignment s n of
        Some i \<Rightarrow> (case g of Some v \<Rightarrow> modifyAssignment i (\<lambda>a. setGrade a v) s | None \<Rightarrow> s)
      | None \<Rightarrow>
          pushAssignment (case g of Some v \<Rightarrow> setGrade (released n) v | None \<Rightarrow> released n) s)"

definition startS :: "string \<Rightarrow> student \<Rightarrow> student" where
  "startS n s =
     (case findAssignment s n of
        Some i \<Rightarrow> modifyAssignment i (\<lambda>a. a\<lparr>status := ''working''\<rparr>) s
      | None \<Rightarrow> pushAssignment ((Assignment n)\<lparr>status := ''working''\<rparr>) s)"

definition submitS :: "string \<Rightarrow> student \<Rightarrow> student" where
  "submitS n s =
     (case findAssignment s n of
        Some i \<Rightarrow>
          (if isSubmitted (assignmentStatuses s ! i) then s
           else modifyAssignment i (\<lambda>a. a\<lparr>isSubmitted := True, status := ''submitted''\<rparr>) s)
      | None \<Rightarrow> pushAssignment ((Assignment n)\<lparr>isSubmitted := True, status := ''submitted''\<rparr>) s)"

text \<open>
  A property of students that every method keeps, and a property of assignments that
  every write to an assignment keeps; \<open>allStudents Q\<close> says that Q holds of every
  student in the store.
\<close>

definition studentStable :: "(student \<Rightarrow> bool) \<Rightarrow> bool" where
  "studentStable Q \<longleftrightarrow>
     (\<forall>n e ob. Q (Student n e ob)) \<and>
     (\<forall>s n. Q s \<longrightarrow> Q (s\<lparr>fullName := n\<rparr>)) \<and>
     (\<forall>s e. Q s \<longrightarrow> Q (s\<lparr>email := e\<rparr>)) \<and>
     (\<forall>s x. Q s \<longrightarrow> Q (s\<lparr>overallGrade := x\<rparr>)) \<and>
     (\<forall>s n g. Q s \<longrightarrow> Q (updS n g s)) \<and>
     (\<forall>s n. Q s \<longrightarrow> Q (startS n s)) \<and>
     (\<forall>s n. Q s \<longrightarrow> Q (submitS n s)) \<and>
     (\<forall>s i. Q s \<longrightarrow> Q (modifyAssignment i (\<lambda>a. a\<lparr>status := ''final reminder''\<rparr>) s)) \<and>
     (\<forall>s i g. Q s \<longrightarrow> Q (modifyAssignment i (\<lambda>a. setGrade a g) s))"

definition allStudents :: "(student \<Rightarrow> bool) \<Rightarrow> world \<Rightarrow> bool" where
  "allStudents Q w \<longleftrightarrow> list_all Q (studentObjs w)"

definition assignmentStable :: "(assignment \<Rightarrow> bool) \<Rightarrow> bool" where
  "assignmentStable P \<longleftrightarrow>
     (\<forall>a g. P (setGrade a g)) \<and>
     (\<forall>n. P (released n)) \<and>
     (\<forall>n. P ((Assignment n)\<lparr>status := ''working''\<rparr>)) \<and>
     (\<forall>n. P ((Assignment n)\<lparr>isSubmitted := True, status := ''submitted''\<rparr>)) \<and>
     (\<forall>a. P a \<longrightarrow> P (a\<lparr>status := ''working''\<rparr>)) \<and>
     (\<forall>a. P a \<longrightarrow> P (a\<lparr>status := ''final reminder''\<rparr>)) \<and>
     (\<forall>a. P a \<longrightarrow> P (a\<lparr>isSubmitted := True, status := ''submitted''\<rparr>))"

text \<open>
  Three invariants: assignment names are unique within a student; an assignment whose
  status is pass or fail has a grade; the status is one of the six that the program
  writes to an assignment that a method has returned.
\<close>

definition namesDistinct :: "student \<Rightarrow> bool" where
  "namesDistinct s \<longleftrightarrow> distinct (map assignmentName (assignmentStatuses s))"

definition terminalGraded :: "assignment \<Rightarrow> bool" where
  "terminalGraded a \<longleftrightarrow> (status a = ''pass'' \<or> status a = ''fail'' \<longrightarrow> grade a \<noteq> None)"

definition knownStatus :: "assignment \<Rightarrow> bool" where
  "knownStatus a \<longleftrightarrow>
     status a \<in> set [''released'', ''working'', ''submitted'', ''final reminder'', ''pass'', ''fail'']"

text \<open>
  findOutstandingAssignments in the specification's words: a student "has an assignment
  named n whose status is ..." is \<open>hasNamed\<close>, completed means submitted, pass or fail.
\<close>

definition completed :: "string \<Rightarrow> bool" where
  "completed st \<longleftrightarrow> st = ''submitted'' \<or> st = ''pass'' \<or> st = ''fail''"

definition hasNamed :: "string \<Rightarrow> (string \<Rightarrow> bool) \<Rightarrow> student \<Rightarrow> bool" where
  "hasNamed n Q s \<longleftrightarrow> (\<exists>a\<in>set (assignmentStatuses s). assignmentName a = n \<and> Q (status a))"

definition hasOpenWork :: "student \<Rightarrow> bool" where
  "hasOpenWork s \<longleftrightarrow>
     (\<exists>a\<in>set (assignmentStatuses s). status a = ''released'' \<or> status a = ''working'')"

definition outstandingSpec :: "student list \<Rightarrow> string \<Rightarrow> string list" where
  "outstandingSpec ss n =
     (if \<exists>s\<in>set ss. hasNamed n completed s
      then map fullName (filter (hasNamed n (\<lambda>st. \<not> completed st)) ss)
      else map fullName (filter hasOpenWork ss))"

text \<open>Executions used as concrete inputs.\<close>

definition rosterExample :: "action list" where
  "rosterExample =
     [NewClassList Observer,
      NewStudent ''Ada'' ''ada@example.org'' Observer,
      NewStudent ''Bob'' ''bob@example.org'' Observer,
      NewStudent ''Cy'' ''cy@example.org'' Observer,
      AddStudent 0 0, AddStudent 0 1, AddStudent 0 2,
      UpdateAssignmentStatus 0 ''HW1'' None,
      UpdateAssignmentStatus 1 ''HW2'' None,
      UpdateAssignmentStatus 2 ''HW1'' None]"

text \<open>
  The unweighted mean of the grades of the graded assignments, \<open>None\<close> when there is
  none.
\<close>

definition meanOfGraded :: "student \<Rightarrow> real option" where
  "meanOfGraded s =
     (let gs = List.map_filter grade (assignmentStatuses s)
      in if gs = [] then None else Some (sum_list gs / real (length gs)))"

definition twoGrades :: "action list" where
  "twoGrades =
     [NewStudent ''Ada'' ''ada@example.org'' Observer,
      UpdateAssignmentStatus 0 ''HW1'' (Some 40),
      UpdateAssignmentStatus 0 ''HW2'' (Some 80),
      UpdateAssignmentStatus 0 ''HW3'' None]"

definition submittedOnce :: "action list" where
  "submittedOnce = [NewStudent ''Ada'' ''ada@example.org'' Observer, SubmitAssignment 0 ''HW1'']"

definition gradedOnce :: "action list" where
  "gradedOnce =
     [NewStudent ''Ada'' ''ada@example.org'' Observer, StartWorking 0 ''HW1'', Fire 0 0, Fire 0 80]"

definition gradedWhenTerminal :: "world \<Rightarrow> bool" where
  "gradedWhenTerminal w \<longleftrightarrow>
     (\<forall>s\<in>set (studentObjs w). \<forall>a\<in>set (assignmentStatuses s).
        status a = ''pass'' \<or> status a = ''fail'' \<longrightarrow> grade a \<noteq> None)"

text \<open>
  The students that sendReminder passes over: no assignment of that name, or one whose
  status is pass or fail. \<open>remindS\<close> is what the reminder does to one student.
\<close>

definition skipsReminder :: "string \<Rightarrow> student \<Rightarrow> bool" where
  "skipsReminder n s =
     (case findAssignment s n of
        None \<Rightarrow> True
      | Some i \<Rightarrow> status (assignmentStatuses s ! i) = ''pass'' \<or>
                  status (assignmentStatuses s ! i) = ''fail'')"

definition remindS :: "string \<Rightarrow> student \<Rightarrow> student" where
  "remindS n s =
     (case findAssignment s n of
        None \<Rightarrow> s
      | Some i \<Rightarrow>
          if status (assignmentStatuses s ! i) = ''pass'' \<or>
             status (assignmentStatuses s ! i) = ''fail'' then s
          else submitS n (modifyAssignment i (\<lambda>a. a\<lparr>status := ''final reminder''\<rparr>) s))"

definition reminderExample :: "action list" where
  "reminderExample =
     [NewClassList Observer,
      NewStudent ''Ada'' ''ada@example.org'' Observer,
      NewStudent ''Bob'' ''bob@example.org'' Observer,
      NewStudent ''Cy'' ''cy@example.org'' Observer,
      AddStudent 0 0, AddStudent 0 1, AddStudent 0 2,
      UpdateAssignmentStatus 0 ''HW1'' (Some 80),
      UpdateAssignmentStatus 1 ''HW1'' None,
      UpdateAssignmentStatus 2 ''HW2'' None]"

text \<open>
  The callbacks that one call of releaseAssignmentsParallel queues, what the roster looks
  like after one of them and after a list of them has run, and the state after the
  event loop has run \<open>j\<close> times the callback at position \<open>k\<close> of the queue.
\<close>

definition batchTimers :: "nat \<Rightarrow> string list \<Rightarrow> nat \<Rightarrow> timer list" where
  "batchTimers c ns p = map (\<lambda>(n, k). Release c n k) (zip ns [p..<p + length ns])"

definition releaseTo :: "nat list \<Rightarrow> string \<Rightarrow> student list \<Rightarrow> student list" where
  "releaseTo rs n xs = fold (\<lambda>r ys. ys[r := updS n None (ys ! r)]) rs xs"


definition releaseAllTo :: "nat list \<Rightarrow> string list \<Rightarrow> student list \<Rightarrow> student list" where
  "releaseAllTo rs ns xs = fold (releaseTo rs) ns xs"


text \<open>
  Every roster holds addresses of constructed students; two states have the same shape
  when they have the same class lists and as many students.
\<close>

definition rostersValid :: "world \<Rightarrow> bool" where
  "rostersValid w \<longleftrightarrow>
     (\<forall>c<length (classListObjs w).
        \<forall>r\<in>set (students (classListObjs w ! c)). r < length (studentObjs w))"

definition sameShape :: "world \<Rightarrow> world \<Rightarrow> bool" where
  "sameShape w w' \<longleftrightarrow>
     classListObjs w' = classListObjs w \<and> length (studentObjs w') = length (studentObjs w)"

text \<open>
  The promise that a pending callback resolves, if any; a state is \<open>timersFresh\<close> when
  every such promise has been allocated. \<open>advances w w'\<close> holds of a step that touches no
  promise and no class list, queues no release callback, allocates no student and takes
  no assignment away. \<open>awaiting c n p\<close> is what is known of the release callback of name
  \<open>n\<close> on class list \<open>c\<close> with promise \<open>p\<close> while other code runs: as long as the promise
  is unresolved the callback is pending, exactly once; from the moment the promise is
  resolved the callback is gone and every student on the roster has an assignment named
  \<open>n\<close>. \<open>addsTo c\<close> recognises the calls of addStudent on class list \<open>c\<close>.
\<close>

definition hasAssignment :: "string \<Rightarrow> student \<Rightarrow> bool" where
  "hasAssignment n s \<longleftrightarrow> findAssignment s n \<noteq> None"

fun timerPromise :: "timer \<Rightarrow> nat option" where
  "timerPromise (Release c n p) = Some p"
| "timerPromise _ = None"


definition advances :: "world \<Rightarrow> world \<Rightarrow> bool" where
  "advances w w' \<longleftrightarrow>
     promiseObjs w' = promiseObjs w \<and> classListObjs w' = classListObjs w \<and>
     length (studentObjs w') = length (studentObjs w) \<and>
     (\<exists>ts. timerQueue w' = timerQueue w @ ts \<and> (\<forall>t\<in>set ts. timerPromise t = None)) \<and>
     (\<forall>r n. hasAssignment n (studentObjs w ! r) \<longrightarrow> hasAssignment n (studentObjs w' ! r))"





section \<open>Supporting lemmas\<close>

text \<open>Array.prototype.find as \<open>findIndex\<close>.\<close>

lemma findIndex_Some:
  "findIndex P xs = Some i \<Longrightarrow> i < length xs \<and> P (xs ! i) \<and> (\<forall>j<i. \<not> P (xs ! j))"
proof (induction xs arbitrary: i)
  case Nil
  then show ?case by simp
next
  case (Cons x xs)
  show ?case
  proof (cases "P x")
    case True
    with Cons.prems show ?thesis by simp
  next
    case False
    with Cons.prems obtain k where k: "findIndex P xs = Some k" "i = Suc k" by auto
    from Cons.IH[OF k(1)] False k(2) show ?thesis
      by (auto simp: nth_Cons split: nat.splits)
  qed
qed

lemma findIndex_None: "findIndex P xs = None \<longleftrightarrow> (\<forall>x\<in>set xs. \<not> P x)"
  by (induction xs) auto

lemma findIndex_append:
  "findIndex P (xs @ ys) =
     (case findIndex P xs of Some i \<Rightarrow> Some i
      | None \<Rightarrow> map_option (\<lambda>j. length xs + j) (findIndex P ys))"
  by (induction xs) (cases "findIndex P ys"; auto split: option.splits)+

lemma findIndex_cong_map:
  "map P xs = map P ys \<Longrightarrow> findIndex P xs = findIndex P ys"
proof (induction xs arbitrary: ys)
  case Nil then show ?case by simp
next
  case (Cons x xs)
  then obtain y ys' where "ys = y # ys'" by (cases ys) auto
  with Cons show ?case by auto
qed

text \<open>What each method does to the store of students.\<close>

lemma studentObjs_modifyStudent [simp]:
  "studentObjs (modifyStudent r f w) = (studentObjs w)[r := f (studentObjs w ! r)]"
  by (simp add: modifyStudent_def)

lemma studentObjs_Observer_notify [simp]: "studentObjs (Observer_notify s a w) = studentObjs w"
  by (simp add: Observer_notify_def)

lemma studentObjs_notifyObserver [simp]: "studentObjs (notifyObserver r i w) = studentObjs w"
  by (simp add: notifyObserver_def Let_def)

lemma modifyAssignment_push:
  "modifyAssignment (length (assignmentStatuses s)) f (pushAssignment a s) = pushAssignment (f a) s"
  by (simp add: modifyAssignment_def pushAssignment_def)

lemma assignmentStatuses_pushAssignment [simp]:
  "assignmentStatuses (pushAssignment a s) = assignmentStatuses s @ [a]"
  by (simp add: pushAssignment_def)

lemma Assignment_fields [simp]:
  "assignmentName (Assignment n) = n" "status (Assignment n) = ''not assigned''"
  "grade (Assignment n) = None" "isSubmitted (Assignment n) = False"
  by (simp_all add: Assignment_def)

lemma updateAssignmentStatus_students:
  "studentObjs (updateAssignmentStatus r n g w) = (studentObjs w)[r := updS n g (studentObjs w ! r)]"
proof (cases "r < length (studentObjs w)")
  case True
  then show ?thesis
    by (simp add: updateAssignmentStatus_def updS_def Let_def modifyAssignment_push released_def
        split: option.splits)
next
  case False
  then show ?thesis
    by (simp add: updateAssignmentStatus_def Let_def list_update_beyond split: option.splits)
qed

lemma startWorking_students:
  "studentObjs (startWorking r n w) = (studentObjs w)[r := startS n (studentObjs w ! r)]"
proof (cases "r < length (studentObjs w)")
  case True
  then show ?thesis
    by (simp add: startWorking_def startS_def Let_def modifyAssignment_push split: option.splits)
next
  case False
  then show ?thesis
    by (simp add: startWorking_def Let_def list_update_beyond split: option.splits)
qed

lemma submitAssignment_students:
  "studentObjs (submitAssignment r n w) = (studentObjs w)[r := submitS n (studentObjs w ! r)]"
proof (cases "r < length (studentObjs w)")
  case True
  then show ?thesis
    by (simp add: submitAssignment_def submitS_def Let_def modifyAssignment_push
        split: option.splits)
next
  case False
  then show ?thesis
    by (simp add: submitAssignment_def Let_def list_update_beyond split: option.splits)
qed

text \<open>The invariants are kept by every action.\<close>

lemma list_all_update:
  "list_all P xs \<Longrightarrow> (\<And>x. P x \<Longrightarrow> P (f x)) \<Longrightarrow> list_all P (xs[i := f (xs ! i)])"
  by (cases "i < length xs") (auto simp: list_all_length nth_list_update list_update_beyond)

lemma map_update_same:
  "h y = h (xs ! i) \<Longrightarrow> map h (xs[i := y]) = map h xs"
  by (cases "i < length xs") (simp_all add: map_update list_update_beyond list_update_same_conv)

lemma assignmentStatuses_modifyAssignment [simp]:
  "assignmentStatuses (modifyAssignment i f s) =
     (assignmentStatuses s)[i := f (assignmentStatuses s ! i)]"
  by (simp add: modifyAssignment_def)

lemma assignmentName_setGrade [simp]: "assignmentName (setGrade a g) = assignmentName a"
  by (simp add: setGrade_def)

lemma assignmentName_released [simp]: "assignmentName (released n) = n"
  by (simp add: released_def)

lemma findAssignment_None: "findAssignment s n = None \<longleftrightarrow> n \<notin> set (map assignmentName (assignmentStatuses s))"
  by (auto simp: findAssignment_def findIndex_None)

lemma studentStable_list_all:
  assumes "assignmentStable P"
  shows "studentStable (\<lambda>s. list_all P (assignmentStatuses s))"
  using assms unfolding studentStable_def assignmentStable_def
  by (auto simp: Student_def updS_def startS_def submitS_def intro!: list_all_update
      split: option.splits)

lemma studentStable_namesDistinct: "studentStable namesDistinct"
  unfolding studentStable_def namesDistinct_def
  by (auto simp: Student_def updS_def startS_def submitS_def map_update_same findAssignment_None
      split: option.splits)

lemma assignmentStable_terminalGraded: "assignmentStable terminalGraded"
  by (simp add: assignmentStable_def terminalGraded_def setGrade_def released_def)

lemma assignmentStable_knownStatus: "assignmentStable knownStatus"
  by (simp add: assignmentStable_def knownStatus_def setGrade_def released_def)

lemma allStudents_update:
  "allStudents Q w \<Longrightarrow> (\<And>s. Q s \<Longrightarrow> Q (f s)) \<Longrightarrow>
   studentObjs w' = (studentObjs w)[r := f (studentObjs w ! r)] \<Longrightarrow> allStudents Q w'"
  by (simp add: allStudents_def list_all_update)

lemma allStudents_same: "studentObjs w' = studentObjs w \<Longrightarrow> allStudents Q w' = allStudents Q w"
  by (simp add: allStudents_def)

lemma allStudents_updateAssignmentStatus:
  "studentStable Q \<Longrightarrow> allStudents Q w \<Longrightarrow> allStudents Q (updateAssignmentStatus r n g w)"
  by (erule allStudents_update[where f = "updS n g"])
     (simp_all add: studentStable_def updateAssignmentStatus_students)

lemma allStudents_startWorking:
  "studentStable Q \<Longrightarrow> allStudents Q w \<Longrightarrow> allStudents Q (startWorking r n w)"
  by (erule allStudents_update[where f = "startS n"])
     (simp_all add: studentStable_def startWorking_students)

lemma allStudents_submitAssignment:
  "studentStable Q \<Longrightarrow> allStudents Q w \<Longrightarrow> allStudents Q (submitAssignment r n w)"
  by (erule allStudents_update[where f = "submitS n"])
     (simp_all add: studentStable_def submitAssignment_students)

lemma studentObjs_getGrade:
  "studentObjs (fst (getGrade r w)) =
     (studentObjs w)[r := (studentObjs w ! r)\<lparr>overallGrade := snd (getGrade r w)\<rparr>]"
  by (simp add: getGrade_def Let_def)

lemma allStudents_getGrade:
  "studentStable Q \<Longrightarrow> allStudents Q w \<Longrightarrow> allStudents Q (fst (getGrade r w))"
  by (erule allStudents_update[where f = "\<lambda>s. s\<lparr>overallGrade := snd (getGrade r w)\<rparr>"])
     (simp_all add: studentStable_def studentObjs_getGrade)

lemma allStudents_modifyStudent:
  "allStudents Q w \<Longrightarrow> (\<And>s. Q s \<Longrightarrow> Q (f s)) \<Longrightarrow> allStudents Q (modifyStudent r f w)"
  by (erule allStudents_update[where f = f]) simp_all

lemma allStudents_remindStudent:
  assumes "studentStable Q" "allStudents Q w"
  shows "allStudents Q (remindStudent c n r w)"
proof -
  have "allStudents Q
          (modifyStudent r (modifyAssignment i (\<lambda>a. a\<lparr>status := ''final reminder''\<rparr>)) w)" for i
    using assms by (intro allStudents_modifyStudent) (simp_all add: studentStable_def)
  then show ?thesis
    using assms
    by (simp add: remindStudent_def Let_def allStudents_same[OF studentObjs_Observer_notify]
        allStudents_submitAssignment split: option.splits)
qed

lemma allStudents_fold:
  "allStudents Q w \<Longrightarrow> (\<And>r w. allStudents Q w \<Longrightarrow> allStudents Q (f r w)) \<Longrightarrow>
   allStudents Q (fold f rs w)"
  by (induction rs arbitrary: w) auto

lemma allStudents_sendReminder:
  "studentStable Q \<Longrightarrow> allStudents Q w \<Longrightarrow> allStudents Q (sendReminder c n w)"
  by (simp add: sendReminder_def allStudents_fold allStudents_remindStudent)

lemma allStudents_runTimer:
  assumes "studentStable Q" "allStudents Q w"
  shows "allStudents Q (runTimer t g w)"
proof (cases t)
  case (AutoSubmit r i n)
  then show ?thesis using assms by (simp add: Let_def allStudents_submitAssignment)
next
  case (Grading r i)
  have "allStudents Q (modifyStudent r (modifyAssignment i (\<lambda>a. setGrade a (real g))) w)"
    using assms by (intro allStudents_modifyStudent) (simp_all add: studentStable_def)
  then show ?thesis using Grading assms(1)
    by (simp add: Let_def allStudents_getGrade allStudents_same[OF studentObjs_notifyObserver])
next
  case (Release c n p)
  have "allStudents Q
          (fold (\<lambda>r. updateAssignmentStatus r n None) (students (classListObjs w ! c)) w)"
    using assms by (intro allStudents_fold allStudents_updateAssignmentStatus)
  then show ?thesis using Release by (simp add: Let_def allStudents_def)
qed

lemma allStudents_fireTimer:
  assumes "studentStable Q" "allStudents Q w"
  shows "allStudents Q (fireTimer k g w)"
proof -
  have "allStudents Q (w\<lparr>timerQueue := q\<rparr>)" for q
    using assms by (simp add: allStudents_def)
  then show ?thesis
    using assms by (simp add: fireTimer_def allStudents_runTimer)
qed

lemma studentObjs_releaseAssignmentsParallel:
  "studentObjs (fst (fold (releaseOne c) ns acc)) = studentObjs (fst acc)"
  by (induction ns arbitrary: acc) (simp_all add: releaseOne_def Let_def)

lemma allStudents_perform:
  assumes "studentStable Q" "allStudents Q w"
  shows "allStudents Q (perform a w)"
proof (cases a)
  case (NewStudent n e ob)
  then show ?thesis using assms by (simp add: allStudents_def studentStable_def)
next
  case (NewClassList ob)
  then show ?thesis using assms by (simp add: allStudents_def)
next
  case (SetFullName r n)
  then show ?thesis using assms
    by (auto simp: setFullName_def studentStable_def intro!: allStudents_modifyStudent)
next
  case (SetEmail r e)
  then show ?thesis using assms
    by (auto simp: setEmail_def studentStable_def intro!: allStudents_modifyStudent)
next
  case (UpdateAssignmentStatus r n g)
  then show ?thesis using assms by (simp add: allStudents_updateAssignmentStatus)
next
  case (StartWorking r n)
  then show ?thesis using assms by (simp add: allStudents_startWorking)
next
  case (SubmitAssignment r n)
  then show ?thesis using assms by (simp add: allStudents_submitAssignment)
next
  case (GetGrade r)
  then show ?thesis using assms by (simp add: allStudents_getGrade)
next
  case (AddStudent c r)
  then show ?thesis using assms
    by (simp add: addStudent_def modifyClassList_def allStudents_def Let_def)
next
  case (RemoveStudent c r)
  then show ?thesis using assms
    by (simp add: removeStudent_def modifyClassList_def allStudents_def)
next
  case (ReleaseAssignmentsParallel c ns)
  then show ?thesis using assms
    by (simp add: releaseAssignmentsParallel_def allStudents_def
        studentObjs_releaseAssignmentsParallel)
next
  case (SendReminder c n)
  then show ?thesis using assms by (simp add: allStudents_sendReminder)
next
  case (Fire k g)
  then show ?thesis using assms by (simp add: allStudents_fireTimer)
qed

lemma allStudents_run:
  "studentStable Q \<Longrightarrow> allStudents Q w \<Longrightarrow> allStudents Q (run acts w)"
  unfolding run_def by (induction acts arbitrary: w) (simp_all add: allStudents_perform)

lemma allStudents_emptyWorld: "allStudents Q emptyWorld"
  by (simp add: allStudents_def emptyWorld_def)

text \<open>The equations that evaluate an execution on a concrete input.\<close>

lemmas eval_defs = run_def emptyWorld_def Student_def ClassList_def Assignment_def setGrade_def
  modifyStudent_def modifyAssignment_def pushAssignment_def findAssignment_def notifyObserver_def
  Observer_notify_def updateAssignmentStatus_def startWorking_def submitAssignment_def getGrade_def
  modifyClassList_def addStudent_def removeStudent_def releaseOne_def releaseAssignmentsParallel_def
  remindStudent_def sendReminder_def fireTimer_def Let_def

text \<open>The two loops of findOutstandingAssignments.\<close>

lemma find_distinct_key:
  "distinct (map h xs) \<Longrightarrow>
   (\<exists>a\<in>set xs. h a = n \<and> Q a) \<longleftrightarrow>
   (case List.find (\<lambda>a. h a = n) xs of None \<Rightarrow> False | Some a \<Rightarrow> Q a)"
  by (induction xs) (auto simp: rev_image_eqI)

lemma hasNamed_find:
  "namesDistinct s \<Longrightarrow>
   hasNamed n Q s \<longleftrightarrow>
   (case List.find (\<lambda>a. assignmentName a = n) (assignmentStatuses s) of
      None \<Rightarrow> False | Some a \<Rightarrow> Q (status a))"
  unfolding hasNamed_def namesDistinct_def by (rule find_distinct_key)

lemma fold_scanForName:
  "\<forall>s\<in>set ss. namesDistinct s \<Longrightarrow>
   fold (scanForName n) ss acc =
     (fst acc @ map fullName (filter (hasNamed n (\<lambda>st. \<not> completed st)) ss),
      snd acc \<or> (\<exists>s\<in>set ss. hasNamed n completed s))"
proof (induction ss arbitrary: acc)
  case Nil
  then show ?case by simp
next
  case (Cons s ss)
  have d: "namesDistinct s" and ds: "\<forall>s\<in>set ss. namesDistinct s"
    using Cons.prems by simp_all
  have step: "scanForName n s acc =
      (fst acc @ (if hasNamed n (\<lambda>st. \<not> completed st) s then [fullName s] else []),
       snd acc \<or> hasNamed n completed s)"
    by (cases acc)
      (auto simp: scanForName_def hasNamed_find[OF d] completed_def Let_def split: option.splits)
  show ?case
    by (simp add: Cons.IH[OF ds] step)
qed

lemma fold_scanFallback:
  "fold scanFallback ss acc = acc @ map fullName (filter hasOpenWork ss)"
  by (induction ss arbitrary: acc)
    (simp_all add: scanFallback_def hasOpenWork_def list_ex_iff Let_def)

lemma rosterExample_roster:
  "roster 0 (run rosterExample emptyWorld) =
     [\<lparr>fullName = ''Ada'', email = ''ada@example.org'',
       assignmentStatuses = [\<lparr>assignmentName = ''HW1'', status = ''released'', grade = None, isSubmitted = False\<rparr>],
       overallGrade = None, studentObserver = Observer\<rparr>,
      \<lparr>fullName = ''Bob'', email = ''bob@example.org'',
       assignmentStatuses = [\<lparr>assignmentName = ''HW2'', status = ''released'', grade = None, isSubmitted = False\<rparr>],
       overallGrade = None, studentObserver = Observer\<rparr>,
      \<lparr>fullName = ''Cy'', email = ''cy@example.org'',
       assignmentStatuses = [\<lparr>assignmentName = ''HW1'', status = ''released'', grade = None, isSubmitted = False\<rparr>],
       overallGrade = None, studentObserver = Observer\<rparr>]"
  by (simp add: rosterExample_def roster_def eval_defs)

lemma rosterExample_roster_submitted:
  "roster 0 (run (rosterExample @ [SubmitAssignment 0 ''HW1'']) emptyWorld) =
     [\<lparr>fullName = ''Ada'', email = ''ada@example.org'',
       assignmentStatuses = [\<lparr>assignmentName = ''HW1'', status = ''submitted'', grade = None, isSubmitted = True\<rparr>],
       overallGrade = None, studentObserver = Observer\<rparr>,
      \<lparr>fullName = ''Bob'', email = ''bob@example.org'',
       assignmentStatuses = [\<lparr>assignmentName = ''HW2'', status = ''released'', grade = None, isSubmitted = False\<rparr>],
       overallGrade = None, studentObserver = Observer\<rparr>,
      \<lparr>fullName = ''Cy'', email = ''cy@example.org'',
       assignmentStatuses = [\<lparr>assignmentName = ''HW1'', status = ''released'', grade = None, isSubmitted = False\<rparr>],
       overallGrade = None, studentObserver = Observer\<rparr>]"
  by (simp add: rosterExample_def roster_def eval_defs)

text \<open>getGrade computes the mean of the graded assignments.\<close>

lemma map_filter_grade:
  "List.map_filter grade xs = map (\<lambda>a. the (grade a)) (filter (\<lambda>a. grade a \<noteq> None) xs)"
  by (induction xs) (auto simp: List.map_filter_simps split: option.splits)

lemma foldl_add_grades:
  "foldl (\<lambda>sum a. sum + the (grade a)) acc xs = acc + sum_list (map (\<lambda>a. the (grade a)) xs)"
  by (induction xs arbitrary: acc) simp_all

lemma snd_getGrade: "snd (getGrade r w) = meanOfGraded (studentObjs w ! r)"
  by (simp add: getGrade_def meanOfGraded_def Let_def map_filter_grade foldl_add_grades)

lemma fst_getGrade:
  "fst (getGrade r w) =
     w\<lparr>studentObjs :=
         (studentObjs w)[r := (studentObjs w ! r)\<lparr>overallGrade := meanOfGraded (studentObjs w ! r)\<rparr>]\<rparr>"
  by (simp add: getGrade_def meanOfGraded_def Let_def map_filter_grade foldl_add_grades
      modifyStudent_def)

lemma twoGrades_students:
  "studentObjs (run twoGrades emptyWorld) =
     [\<lparr>fullName = ''Ada'', email = ''ada@example.org'',
       assignmentStatuses =
         [\<lparr>assignmentName = ''HW1'', status = ''fail'', grade = Some 40, isSubmitted = False\<rparr>,
          \<lparr>assignmentName = ''HW2'', status = ''pass'', grade = Some 80, isSubmitted = False\<rparr>,
          \<lparr>assignmentName = ''HW3'', status = ''released'', grade = None, isSubmitted = False\<rparr>],
       overallGrade = None, studentObserver = Observer\<rparr>]"
  by (simp add: twoGrades_def eval_defs)

text \<open>
  The grading callback refreshes \<open>overallGrade\<close>; updateAssignmentStatus leaves it as it
  was.
\<close>

lemma runTimer_Grading_students:
  "studentObjs (runTimer (Grading r i) g w) =
     (studentObjs w)[r := (modifyAssignment i (\<lambda>a. setGrade a (real g)) (studentObjs w ! r))
        \<lparr>overallGrade := meanOfGraded (modifyAssignment i (\<lambda>a. setGrade a (real g)) (studentObjs w ! r))\<rparr>]"
  by (cases "r < length (studentObjs w)") (simp_all add: Let_def fst_getGrade list_update_beyond)

lemma grading_refreshes_overallGrade:
  assumes "r < length (studentObjs w)"
  shows "overallGrade (studentObjs (runTimer (Grading r i) g w) ! r) =
         meanOfGraded (studentObjs (runTimer (Grading r i) g w) ! r)"
  using assms by (simp add: runTimer_Grading_students meanOfGraded_def Let_def del: runTimer.simps)

lemma updateAssignmentStatus_overallGrade:
  assumes "r < length (studentObjs w)"
  shows "overallGrade (studentObjs (updateAssignmentStatus r n g w) ! r) = overallGrade (studentObjs w ! r)"
  using assms
  by (simp add: updateAssignmentStatus_students updS_def modifyAssignment_def pushAssignment_def
      split: option.splits)

text \<open>In every execution from the empty state all statuses are known ones.\<close>

lemma allKnown_reachable:
  "allStudents (\<lambda>s. list_all knownStatus (assignmentStatuses s)) (run acts emptyWorld)"
  by (intro allStudents_run studentStable_list_all assignmentStable_knownStatus
      allStudents_emptyWorld)

text \<open>Looking an assignment up after a write that keeps the names.\<close>

lemma findIndex_update_same:
  "P y = P (xs ! i) \<Longrightarrow> findIndex P (xs[i := y]) = findIndex P xs"
  by (rule findIndex_cong_map) (simp add: map_update_same)

lemma findAssignment_modifyAssignment:
  "(\<And>a. assignmentName (f a) = assignmentName a) \<Longrightarrow>
   findAssignment (modifyAssignment i f s) m = findAssignment s m"
  by (simp add: findAssignment_def findIndex_update_same)

lemma findAssignment_push_new:
  "findAssignment s n = None \<Longrightarrow> assignmentName a = n \<Longrightarrow>
   findAssignment (pushAssignment a s) n = Some (length (assignmentStatuses s))"
  by (simp add: findAssignment_def findIndex_append)

lemma findAssignment_bound: "findAssignment s n = Some i \<Longrightarrow> i < length (assignmentStatuses s)"
  by (auto simp: findAssignment_def dest: findIndex_Some)

lemma submitAssignment_already:
  "findAssignment (studentObjs w ! r) n = Some i \<Longrightarrow>
   isSubmitted (assignmentStatuses (studentObjs w ! r) ! i) \<Longrightarrow> submitAssignment r n w = w"
  by (simp add: submitAssignment_def)

lemma submitS_submitted:
  "\<exists>i. findAssignment (submitS n s) n = Some i \<and> isSubmitted (assignmentStatuses (submitS n s) ! i)"
proof (cases "findAssignment s n")
  case None
  then show ?thesis
    by (simp add: submitS_def findAssignment_push_new)
next
  case (Some i)
  then show ?thesis
    by (auto simp: submitS_def findAssignment_modifyAssignment dest: findAssignment_bound)
qed

lemma submittedOnce_world:
  "run submittedOnce emptyWorld =
     \<lparr>studentObjs =
        [\<lparr>fullName = ''Ada'', email = ''ada@example.org'',
          assignmentStatuses =
            [\<lparr>assignmentName = ''HW1'', status = ''submitted'', grade = None, isSubmitted = True\<rparr>],
          overallGrade = None, studentObserver = Observer\<rparr>],
      classListObjs = [], promiseObjs = [], timerQueue = [Grading 0 0],
      console = [notifyMessage ''Ada'' ''HW1'' ''submitted'']\<rparr>"
  by (simp add: submittedOnce_def eval_defs)

lemma startS_found:
  "findAssignment s n = Some i \<Longrightarrow>
   findAssignment (startS n s) n = Some i \<and>
   assignmentStatuses (startS n s) ! i = (assignmentStatuses s ! i)\<lparr>status := ''working''\<rparr>"
  by (auto simp: startS_def findAssignment_modifyAssignment dest: findAssignment_bound)

lemma startS_new:
  "findAssignment s n = None \<Longrightarrow>
   findAssignment (startS n s) n = Some (length (assignmentStatuses s)) \<and>
   assignmentStatuses (startS n s) ! length (assignmentStatuses s) =
     (Assignment n)\<lparr>status := ''working''\<rparr>"
  by (simp add: startS_def findAssignment_push_new)

lemma gradedOnce_students:
  "studentObjs (run gradedOnce emptyWorld) =
     [\<lparr>fullName = ''Ada'', email = ''ada@example.org'',
       assignmentStatuses =
         [\<lparr>assignmentName = ''HW1'', status = ''pass'', grade = Some 80, isSubmitted = True\<rparr>],
       overallGrade = Some 80, studentObserver = Observer\<rparr>]"
  by (simp add: gradedOnce_def eval_defs)

lemma gradedWhenTerminal_allStudents:
  "gradedWhenTerminal w = allStudents (\<lambda>s. list_all terminalGraded (assignmentStatuses s)) w"
  by (simp add: gradedWhenTerminal_def allStudents_def list_all_iff terminalGraded_def)

text \<open>One round of the loop of sendReminder.\<close>

lemma remindStudent_skip: "skipsReminder n (studentObjs w ! r) \<Longrightarrow> remindStudent c n r w = w"
  by (auto simp: skipsReminder_def remindStudent_def Let_def split: option.splits)

lemma remindStudent_students:
  "studentObjs (remindStudent c n r w) = (studentObjs w)[r := remindS n (studentObjs w ! r)]"
proof (cases "r < length (studentObjs w)")
  case True
  then show ?thesis
    by (simp add: remindStudent_def remindS_def Let_def submitAssignment_students
        split: option.splits)
next
  case False
  then show ?thesis
    by (simp add: remindStudent_def Let_def submitAssignment_students list_update_beyond
        split: option.splits)
qed

lemma skipsReminder_remindS: "skipsReminder n (remindS n s) = skipsReminder n s"
proof (cases "skipsReminder n s")
  case True
  then show ?thesis
    by (auto simp: skipsReminder_def remindS_def split: option.splits)
next
  case False
  then obtain i where i: "findAssignment s n = Some i"
    "status (assignmentStatuses s ! i) \<noteq> ''pass''" "status (assignmentStatuses s ! i) \<noteq> ''fail''"
    by (auto simp: skipsReminder_def split: option.splits)
  have b: "i < length (assignmentStatuses s)"
    using i(1) by (rule findAssignment_bound)
  have "\<not> skipsReminder n (remindS n s)"
    using i b
    by (simp add: skipsReminder_def remindS_def submitS_def findAssignment_modifyAssignment)
  with False show ?thesis by simp
qed

lemma skipsReminder_remindStudent:
  "skipsReminder n (studentObjs (remindStudent c n r' w) ! r) = skipsReminder n (studentObjs w ! r)"
proof (cases "r = r' \<and> r' < length (studentObjs w)")
  case True
  then show ?thesis by (simp add: remindStudent_students skipsReminder_remindS)
next
  case False
  then show ?thesis
    by (cases "r' < length (studentObjs w)")
      (auto simp: remindStudent_students list_update_beyond)
qed

lemma fold_remindStudent_filter:
  "(\<And>r. skipsReminder n (studentObjs w' ! r) = skipsReminder n (studentObjs w ! r)) \<Longrightarrow>
   fold (remindStudent c n) rs w' =
     fold (remindStudent c n) (filter (\<lambda>r. \<not> skipsReminder n (studentObjs w ! r)) rs) w'"
proof (induction rs arbitrary: w')
  case Nil
  then show ?case by simp
next
  case (Cons r rs)
  show ?case
  proof (cases "skipsReminder n (studentObjs w ! r)")
    case True
    then have "remindStudent c n r w' = w'"
      using Cons.prems by (simp add: remindStudent_skip)
    then show ?thesis
      using True Cons.IH[of w'] Cons.prems by simp
  next
    case False
    have "fold (remindStudent c n) rs (remindStudent c n r w') =
          fold (remindStudent c n) (filter (\<lambda>r. \<not> skipsReminder n (studentObjs w ! r)) rs)
            (remindStudent c n r w')"
      by (rule Cons.IH) (simp add: skipsReminder_remindStudent Cons.prems)
    then show ?thesis using False by simp
  qed
qed

lemma fold_remindStudent_untouched:
  "skipsReminder n (studentObjs w ! r) \<Longrightarrow>
   studentObjs (fold (remindStudent c n) rs w) ! r = studentObjs w ! r"
proof (induction rs arbitrary: w)
  case Nil
  then show ?case by simp
next
  case (Cons r' rs)
  have same: "studentObjs (remindStudent c n r' w) ! r = studentObjs w ! r"
  proof (cases "r' = r")
    case True
    then show ?thesis using Cons.prems by (simp add: remindStudent_skip)
  next
    case False
    then show ?thesis by (simp add: remindStudent_students)
  qed
  have "skipsReminder n (studentObjs (remindStudent c n r' w) ! r)"
    using Cons.prems by (simp add: skipsReminder_remindStudent)
  from Cons.IH[OF this] same show ?case by simp
qed

lemma findAssignment_name:
  "findAssignment s n = Some i \<Longrightarrow> assignmentName (assignmentStatuses s ! i) = n"
  by (auto simp: findAssignment_def dest: findIndex_Some)

lemma remindStudent_effect:
  assumes "r < length (studentObjs w)" "findAssignment (studentObjs w ! r) n = Some i"
    "status (assignmentStatuses (studentObjs w ! r) ! i) \<noteq> ''pass''"
    "status (assignmentStatuses (studentObjs w ! r) ! i) \<noteq> ''fail''"
  shows "remindStudent c n r w =
     submitAssignment r n
       (w\<lparr>studentObjs := (studentObjs w)
             [r := modifyAssignment i (\<lambda>a. a\<lparr>status := ''final reminder''\<rparr>) (studentObjs w ! r)],
          console := console w @
             (if hasNotify (classListObserver (classListObjs w ! c))
              then [notifyMessage (fullName (studentObjs w ! r)) n ''final reminder''] else [])\<rparr>)"
proof -
  have b: "i < length (assignmentStatuses (studentObjs w ! r))"
    using assms(2) by (rule findAssignment_bound)
  have nm: "assignmentName (assignmentStatuses (studentObjs w ! r) ! i) = n"
    using assms(2) by (rule findAssignment_name)
  show ?thesis
    using assms b nm
    by (simp add: remindStudent_def Let_def modifyStudent_def Observer_notify_def
        modifyAssignment_def)
qed

lemma reminderExample_students:
  "studentObjs (run reminderExample emptyWorld) =
     [\<lparr>fullName = ''Ada'', email = ''ada@example.org'',
       assignmentStatuses = [\<lparr>assignmentName = ''HW1'', status = ''pass'', grade = Some 80, isSubmitted = False\<rparr>],
       overallGrade = None, studentObserver = Observer\<rparr>,
      \<lparr>fullName = ''Bob'', email = ''bob@example.org'',
       assignmentStatuses = [\<lparr>assignmentName = ''HW1'', status = ''released'', grade = None, isSubmitted = False\<rparr>],
       overallGrade = None, studentObserver = Observer\<rparr>,
      \<lparr>fullName = ''Cy'', email = ''cy@example.org'',
       assignmentStatuses = [\<lparr>assignmentName = ''HW2'', status = ''released'', grade = None, isSubmitted = False\<rparr>],
       overallGrade = None, studentObserver = Observer\<rparr>]"
  by (simp add: reminderExample_def eval_defs)

lemma reminderExample_rest:
  "classListObjs (run reminderExample emptyWorld) = [\<lparr>students = [0, 1, 2], classListObserver = Observer\<rparr>]"
  "timerQueue (run reminderExample emptyWorld) = []"
  by (simp_all add: reminderExample_def eval_defs)



lemma updateAssignmentStatus_frame:
  "classListObjs (updateAssignmentStatus r n g w) = classListObjs w"
  "promiseObjs (updateAssignmentStatus r n g w) = promiseObjs w"
  "timerQueue (updateAssignmentStatus r n g w) = timerQueue w"
  by (simp_all add: updateAssignmentStatus_def Let_def notifyObserver_def Observer_notify_def
      modifyStudent_def split: option.splits)





lemma length_releaseTo [simp]: "length (releaseTo rs n xs) = length xs"
  unfolding releaseTo_def by (induction rs arbitrary: xs) simp_all


lemma length_releaseAllTo [simp]: "length (releaseAllTo rs ns xs) = length xs"
  unfolding releaseAllTo_def by (induction ns arbitrary: xs) simp_all





lemma length_batchTimers [simp]: "length (batchTimers c ns p) = length ns"
  by (simp add: batchTimers_def)










text \<open>Rosters only hold addresses of constructed students.\<close>

lemma sameShape_refl [simp]: "sameShape w w"
  by (simp add: sameShape_def)

lemma sameShape_trans: "sameShape w w' \<Longrightarrow> sameShape w' w'' \<Longrightarrow> sameShape w w''"
  by (simp add: sameShape_def)

lemma sameShape_rostersValid: "sameShape w w' \<Longrightarrow> rostersValid w \<Longrightarrow> rostersValid w'"
  by (simp add: sameShape_def rostersValid_def)

lemma sameShape_updateAssignmentStatus: "sameShape w (updateAssignmentStatus r n g w)"
  by (simp add: sameShape_def updateAssignmentStatus_students updateAssignmentStatus_frame)

lemma classListObjs_modifyStudent [simp]: "classListObjs (modifyStudent r f w) = classListObjs w"
  by (simp add: modifyStudent_def)

lemma classListObjs_Observer_notify [simp]: "classListObjs (Observer_notify s a w) = classListObjs w"
  by (simp add: Observer_notify_def)

lemma classListObjs_notifyObserver [simp]: "classListObjs (notifyObserver r i w) = classListObjs w"
  by (simp add: notifyObserver_def Let_def)

lemma classListObjs_startWorking: "classListObjs (startWorking r n w) = classListObjs w"
  by (simp add: startWorking_def Let_def split: option.splits)

lemma classListObjs_submitAssignment: "classListObjs (submitAssignment r n w) = classListObjs w"
  by (simp add: submitAssignment_def Let_def split: option.splits)

lemma classListObjs_remindStudent: "classListObjs (remindStudent c n r w) = classListObjs w"
  by (simp add: remindStudent_def Let_def classListObjs_submitAssignment split: option.splits)

lemma sameShape_startWorking: "sameShape w (startWorking r n w)"
  by (simp add: sameShape_def startWorking_students classListObjs_startWorking)

lemma sameShape_submitAssignment: "sameShape w (submitAssignment r n w)"
  by (simp add: sameShape_def submitAssignment_students classListObjs_submitAssignment)

lemma sameShape_getGrade: "sameShape w (fst (getGrade r w))"
  by (simp add: sameShape_def fst_getGrade)

lemma sameShape_remindStudent: "sameShape w (remindStudent c n r w)"
  by (simp add: sameShape_def remindStudent_students classListObjs_remindStudent)

lemma sameShape_fold:
  "(\<And>r w. sameShape w (f r w)) \<Longrightarrow> sameShape w (fold f rs w)"
proof (induction rs arbitrary: w)
  case Nil
  then show ?case by simp
next
  case (Cons r rs)
  have "sameShape w (f r w)" by (rule Cons.prems)
  moreover have "sameShape (f r w) (fold f rs (f r w))"
    by (rule Cons.IH) (rule Cons.prems)
  ultimately show ?case
    by (simp add: sameShape_trans)
qed

lemma sameShape_sendReminder: "sameShape w (sendReminder c n w)"
  unfolding sendReminder_def by (rule sameShape_fold) (rule sameShape_remindStudent)

lemma sameShape_runTimer: "sameShape w (runTimer t g w)"
proof (cases t)
  case (AutoSubmit r i n)
  then show ?thesis by (simp add: Let_def sameShape_submitAssignment)
next
  case (Grading r i)
  then show ?thesis
    by (simp add: sameShape_def Let_def fst_getGrade)
next
  case (Release c n p)
  have "sameShape w (fold (\<lambda>r. updateAssignmentStatus r n None) (students (classListObjs w ! c)) w)"
    by (rule sameShape_fold) (rule sameShape_updateAssignmentStatus)
  then show ?thesis
    using Release by (simp add: sameShape_def Let_def)
qed

lemma sameShape_fireTimer: "sameShape w (fireTimer k g w)"
proof -
  have "sameShape w (runTimer t g (w\<lparr>timerQueue := q\<rparr>))" for t q
    using sameShape_runTimer[of "w\<lparr>timerQueue := q\<rparr>" t g] by (simp add: sameShape_def)
  then show ?thesis
    by (simp add: fireTimer_def)
qed

lemma classListObjs_releaseAssignmentsParallel:
  "classListObjs (fst (fold (releaseOne c) ns acc)) = classListObjs (fst acc)"
  by (induction ns arbitrary: acc) (simp_all add: releaseOne_def Let_def)

lemma rostersValid_perform:
  assumes "rostersValid w"
  shows "rostersValid (perform a w)"
proof (cases a)
  case (NewStudent n e ob)
  then show ?thesis using assms by (force simp: rostersValid_def)
next
  case (NewClassList ob)
  then show ?thesis using assms
    by (auto simp: rostersValid_def ClassList_def nth_append)
next
  case (SetFullName r n)
  then show ?thesis using assms
    by (simp add: setFullName_def modifyStudent_def rostersValid_def)
next
  case (SetEmail r e)
  then show ?thesis using assms
    by (simp add: setEmail_def modifyStudent_def rostersValid_def)
next
  case (UpdateAssignmentStatus r n g)
  then show ?thesis using assms
    by (simp add: sameShape_rostersValid[OF sameShape_updateAssignmentStatus])
next
  case (StartWorking r n)
  then show ?thesis using assms
    by (simp add: sameShape_rostersValid[OF sameShape_startWorking])
next
  case (SubmitAssignment r n)
  then show ?thesis using assms
    by (simp add: sameShape_rostersValid[OF sameShape_submitAssignment])
next
  case (GetGrade r)
  then show ?thesis using assms
    by (simp add: sameShape_rostersValid[OF sameShape_getGrade])
next
  case (AddStudent c r)
  then show ?thesis using assms
    by (auto simp: addStudent_def modifyClassList_def rostersValid_def Let_def nth_list_update)
next
  case (RemoveStudent c r)
  then show ?thesis using assms
    by (auto simp: removeStudent_def modifyClassList_def rostersValid_def nth_list_update)
next
  case (ReleaseAssignmentsParallel c ns)
  then show ?thesis using assms
    by (simp add: releaseAssignmentsParallel_def rostersValid_def
        studentObjs_releaseAssignmentsParallel classListObjs_releaseAssignmentsParallel)
next
  case (SendReminder c n)
  then show ?thesis using assms
    by (simp add: sameShape_rostersValid[OF sameShape_sendReminder])
next
  case (Fire k g)
  then show ?thesis using assms
    by (simp add: sameShape_rostersValid[OF sameShape_fireTimer])
qed

lemma rostersValid_run: "rostersValid w \<Longrightarrow> rostersValid (run acts w)"
  unfolding run_def by (induction acts arbitrary: w) (simp_all add: rostersValid_perform)

lemma rostersValid_reachable: "rostersValid (run acts emptyWorld)"
  by (rule rostersValid_run) (simp add: rostersValid_def emptyWorld_def)

lemma namesDistinct_reachable:
  assumes "c < length (classListObjs (run acts emptyWorld))"
  shows "\<forall>s\<in>set (roster c (run acts emptyWorld)). namesDistinct s"
proof -
  let ?w = "run acts emptyWorld"
  have "allStudents namesDistinct ?w"
    by (intro allStudents_run studentStable_namesDistinct allStudents_emptyWorld)
  then have d: "\<forall>s\<in>set (studentObjs ?w). namesDistinct s"
    by (simp add: allStudents_def list_all_iff)
  have "\<forall>r\<in>set (students (classListObjs ?w ! c)). r < length (studentObjs ?w)"
    using rostersValid_reachable[of acts] assms by (simp add: rostersValid_def)
  then show ?thesis
    using d by (auto simp: roster_def)
qed

text \<open>Steps that leave promises, class lists and release callbacks alone.\<close>

lemma advances_refl [simp]: "advances w w"
  by (simp add: advances_def)





lemma hasAssignment_modifyAssignment:
  "(\<And>a. assignmentName (f a) = assignmentName a) \<Longrightarrow>
   hasAssignment m (modifyAssignment i f s) = hasAssignment m s"
  by (simp add: hasAssignment_def findAssignment_modifyAssignment)

lemma hasAssignment_pushAssignment:
  "hasAssignment m s \<Longrightarrow> hasAssignment m (pushAssignment a s)"
  by (auto simp: hasAssignment_def findAssignment_def findIndex_append)



lemma keeps_submitS: "hasAssignment m s \<Longrightarrow> hasAssignment m (submitS n s)"
  by (simp add: submitS_def hasAssignment_modifyAssignment hasAssignment_pushAssignment
      split: option.splits)

lemma keeps_remindS: "hasAssignment m s \<Longrightarrow> hasAssignment m (remindS n s)"
  by (simp add: remindS_def keeps_submitS hasAssignment_modifyAssignment split: option.splits)

lemma frame_modifyStudent [simp]:
  "promiseObjs (modifyStudent r f w) = promiseObjs w"
  "timerQueue (modifyStudent r f w) = timerQueue w"
  by (simp_all add: modifyStudent_def)

lemma frame_Observer_notify [simp]:
  "promiseObjs (Observer_notify s a w) = promiseObjs w"
  "timerQueue (Observer_notify s a w) = timerQueue w"
  by (simp_all add: Observer_notify_def)

lemma frame_notifyObserver [simp]:
  "promiseObjs (notifyObserver r i w) = promiseObjs w"
  "timerQueue (notifyObserver r i w) = timerQueue w"
  by (simp_all add: notifyObserver_def Let_def)








































section \<open>Claims\<close>

text \<open>
  Claim C1. For every class list and assignment name n, findOutstandingAssignments(n) is a
  two-mode query. If at least one student on the roster has an assignment named n whose
  status is submitted, pass or fail, it returns exactly the names of the students who have
  an assignment named n whose status is none of these three. Otherwise it returns exactly
  the names of all students that have at least one assignment, of any name, whose status
  is released or working. Names come in roster order, one per roster entry. The hypothesis
  is the data model's uniqueness of assignment names within a student, which holds on
  every roster of every execution (lemma \<open>namesDistinct_reachable\<close>).
\<close>

theorem findOutstandingAssignments_two_modes:
  assumes "\<forall>s\<in>set (roster c w). namesDistinct s"
  shows "findOutstandingAssignments c n w = outstandingSpec (roster c w) n"
  using assms
  by (simp add: findOutstandingAssignments_def outstandingSpec_def Let_def fold_scanForName
      fold_scanFallback)

text \<open>
  Claim C1 on the specification's example: Ada and Cy hold HW1 released and Bob holds only
  HW2 released, so nobody has completed HW1 and the fallback lists all three; once Ada has
  submitted HW1 the primary mode lists Cy alone.
\<close>

theorem findOutstandingAssignments_two_modes_witness:
  "list_all namesDistinct (roster 0 (run rosterExample emptyWorld)) \<and>
   findOutstandingAssignments 0 ''HW1'' (run rosterExample emptyWorld) = [''Ada'', ''Bob'', ''Cy''] \<and>
   list_all namesDistinct
     (roster 0 (run (rosterExample @ [SubmitAssignment 0 ''HW1'']) emptyWorld)) \<and>
   findOutstandingAssignments 0 ''HW1''
     (run (rosterExample @ [SubmitAssignment 0 ''HW1'']) emptyWorld) = [''Cy'']"
proof -
  have d1: "\<forall>s\<in>set (roster 0 (run rosterExample emptyWorld)). namesDistinct s"
    by (simp add: rosterExample_roster namesDistinct_def)
  have d2: "\<forall>s\<in>set (roster 0 (run (rosterExample @ [SubmitAssignment 0 ''HW1'']) emptyWorld)).
      namesDistinct s"
    by (simp add: rosterExample_roster_submitted namesDistinct_def)
  have "findOutstandingAssignments 0 ''HW1'' (run rosterExample emptyWorld) =
      [''Ada'', ''Bob'', ''Cy'']"
    using findOutstandingAssignments_two_modes [OF d1, of "''HW1''"]
    by (simp add: rosterExample_roster outstandingSpec_def hasNamed_def hasOpenWork_def
        completed_def)
  moreover have "findOutstandingAssignments 0 ''HW1''
      (run (rosterExample @ [SubmitAssignment 0 ''HW1'']) emptyWorld) = [''Cy'']"
    using findOutstandingAssignments_two_modes [OF d2, of "''HW1''"]
    by (simp add: rosterExample_roster_submitted outstandingSpec_def hasNamed_def
        hasOpenWork_def completed_def)
  ultimately show ?thesis
    using d1 d2 by (simp add: list_all_iff)
qed

text \<open>
  Claim C2. For every grade g, after setGrade(g) the stored grade is g and the status is
  pass exactly when g is greater than 50 and fail otherwise; 50 gives fail and 51 gives
  pass.
\<close>

theorem setGrade_pass_iff_over_50:
  "grade (setGrade a g) = Some g \<and>
   (status (setGrade a g) = ''pass'' \<longleftrightarrow> g > 50) \<and>
   (status (setGrade a g) = ''fail'' \<longleftrightarrow> \<not> g > 50) \<and>
   status (setGrade a 50) = ''fail'' \<and> status (setGrade a 51) = ''pass''"
  by (simp add: setGrade_def)

text \<open>
Claim C2 at the grades 75, 50 and 51.
\<close>

theorem setGrade_pass_iff_over_50_witness:
  "grade (setGrade (Assignment ''HW1'') 75) = Some 75 \<and>
   status (setGrade (Assignment ''HW1'') 75) = ''pass'' \<and>
   status (setGrade (Assignment ''HW1'') 50) = ''fail'' \<and>
   status (setGrade (Assignment ''HW1'') 51) = ''pass''"
  using setGrade_pass_iff_over_50 [of "Assignment ''HW1''" 75] by simp

text \<open>
  Claim C3. For every student and assignment name n, submitAssignment(n) on an assignment
  whose isSubmitted is already true changes nothing at all: the status, the grade and
  isSubmitted stay, the console gets no line and the queue of callbacks gets no second
  grading event. Hence calling submitAssignment(n) twice in a row gives the state that
  one call gives.
\<close>

theorem submitAssignment_idempotent:
  assumes "r < length (studentObjs w)"
  shows "(\<forall>i. findAssignment (studentObjs w ! r) n = Some i \<and>
              isSubmitted (assignmentStatuses (studentObjs w ! r) ! i) \<longrightarrow>
              submitAssignment r n w = w) \<and>
         submitAssignment r n (submitAssignment r n w) = submitAssignment r n w"
proof -
  obtain i where
    "findAssignment (studentObjs (submitAssignment r n w) ! r) n = Some i"
    "isSubmitted (assignmentStatuses (studentObjs (submitAssignment r n w) ! r) ! i)"
    using submitS_submitted[of n "studentObjs w ! r"] assms
    by (auto simp: submitAssignment_students)
  then have "submitAssignment r n (submitAssignment r n w) = submitAssignment r n w"
    by (rule submitAssignment_already)
  then show ?thesis
    by (simp add: submitAssignment_already)
qed

text \<open>
  Claim C3 after one submission of HW1: the second call leaves the state as it is, with
  one grading callback pending and one line on the console.
\<close>

theorem submitAssignment_idempotent_witness:
  "0 < length (studentObjs (run submittedOnce emptyWorld)) \<and>
   findAssignment (studentObjs (run submittedOnce emptyWorld) ! 0) ''HW1'' = Some 0 \<and>
   isSubmitted (assignmentStatuses (studentObjs (run submittedOnce emptyWorld) ! 0) ! 0) \<and>
   submitAssignment 0 ''HW1'' (run submittedOnce emptyWorld) = run submittedOnce emptyWorld \<and>
   timerQueue (submitAssignment 0 ''HW1'' (run submittedOnce emptyWorld)) = [Grading 0 0] \<and>
   console (submitAssignment 0 ''HW1'' (run submittedOnce emptyWorld)) =
     [notifyMessage ''Ada'' ''HW1'' ''submitted'']"
proof -
  have h: "0 < length (studentObjs (run submittedOnce emptyWorld))"
    by (simp add: submittedOnce_world)
  have f: "findAssignment (studentObjs (run submittedOnce emptyWorld) ! 0) ''HW1'' = Some 0"
    by (simp add: submittedOnce_world findAssignment_def)
  have s: "isSubmitted (assignmentStatuses (studentObjs (run submittedOnce emptyWorld) ! 0) ! 0)"
    by (simp add: submittedOnce_world)
  have "submitAssignment 0 ''HW1'' (run submittedOnce emptyWorld) = run submittedOnce emptyWorld"
    using submitAssignment_idempotent [OF h, of "''HW1''"] f s by blast
  then show ?thesis
    using h f s by (simp add: submittedOnce_world)
qed

text \<open>
  Claim C4, as amended. In every state reached from the empty state by any sequence of
  constructions, public Student and ClassList methods and deferred callbacks, an
  assignment whose status is pass or fail has a non-null grade, and every single action
  preserves this. The converse direction of the claim is not an invariant: a graded
  assignment can leave the statuses pass and fail again.
\<close>

theorem grade_present_when_terminal:
  "gradedWhenTerminal (run acts emptyWorld) \<and>
   (gradedWhenTerminal w \<longrightarrow> gradedWhenTerminal (perform a w))"
  unfolding gradedWhenTerminal_allStudents
  by (simp add: allStudents_run allStudents_perform studentStable_list_all
      assignmentStable_terminalGraded allStudents_emptyWorld)

text \<open>
  Claim C4 as amended, on the execution where Ada starts HW1, the auto-submit fires and
  the grading callback draws 80: the status is pass with grade 80, and the invariant
  still holds after a further startWorking.
\<close>

theorem grade_present_when_terminal_witness:
  "gradedWhenTerminal (run gradedOnce emptyWorld) \<and>
   status (assignmentStatuses (studentObjs (run gradedOnce emptyWorld) ! 0) ! 0) = ''pass'' \<and>
   grade (assignmentStatuses (studentObjs (run gradedOnce emptyWorld) ! 0) ! 0) = Some 80 \<and>
   gradedWhenTerminal (perform (StartWorking 0 ''HW1'') (run gradedOnce emptyWorld))"
  using grade_present_when_terminal [of gradedOnce "run gradedOnce emptyWorld" "StartWorking 0 ''HW1''"]
  by (simp add: gradedOnce_students)

text \<open>
  Claim C4 as stated fails. After Ada's HW1 has been graded 80, startWorking("HW1") sets the
  status back to working and keeps the grade: the grade is non-null although the status
  is neither pass nor fail.
\<close>

theorem grade_without_terminal_status:
  "grade (assignmentStatuses
      (studentObjs (run (gradedOnce @ [StartWorking 0 ''HW1'']) emptyWorld) ! 0) ! 0) = Some 80 \<and>
   status (assignmentStatuses
      (studentObjs (run (gradedOnce @ [StartWorking 0 ''HW1'']) emptyWorld) ! 0) ! 0) = ''working''"
  by (simp add: gradedOnce_def eval_defs)

text \<open>
  Claim C5. Every operation that sets a grade is to refresh the student's cached
  overallGrade at once. The grading callback does (lemma
  \<open>grading_refreshes_overallGrade\<close>), updateAssignmentStatus with a numeric grade
  does not (lemma \<open>updateAssignmentStatus_overallGrade\<close>): after
  updateAssignmentStatus("HW1", 40) and updateAssignmentStatus("HW2", 80) on a new student
  the cached overallGrade is still null while the mean of the graded assignments is 60.
\<close>

theorem updateAssignmentStatus_leaves_overallGrade_stale:
  "overallGrade (studentObjs (run twoGrades emptyWorld) ! 0) = None \<and>
   meanOfGraded (studentObjs (run twoGrades emptyWorld) ! 0) = Some 60"
  by (simp add: twoGrades_students meanOfGraded_def List.map_filter_simps)

text \<open>
  Claim C6. For every student, getGrade() returns, and caches in overallGrade, the
  unweighted arithmetic mean of the grades of exactly the graded assignments; the result
  is null exactly when no assignment of the student has a grade. Nothing else in the
  state changes.
\<close>

theorem getGrade_mean_of_graded:
  assumes "r < length (studentObjs w)"
  shows "snd (getGrade r w) = meanOfGraded (studentObjs w ! r) \<and>
         overallGrade (studentObjs (fst (getGrade r w)) ! r) = meanOfGraded (studentObjs w ! r) \<and>
         (\<forall>a\<in>set (assignmentStatuses (studentObjs w ! r)). grade a = None) =
           (snd (getGrade r w) = None) \<and>
         fst (getGrade r w) =
           modifyStudent r (\<lambda>s. s\<lparr>overallGrade := meanOfGraded (studentObjs w ! r)\<rparr>) w"
proof -
  have "(\<forall>a\<in>set xs. grade a = None) = (List.map_filter grade xs = [])" for xs :: "assignment list"
    by (induction xs) (auto simp: List.map_filter_simps split: option.splits)
  then show ?thesis
    using assms by (simp add: snd_getGrade fst_getGrade modifyStudent_def meanOfGraded_def Let_def)
qed

text \<open>
  Claim C6 on a student with the grades 40 and 80 and one ungraded assignment, where the
  result is 60, and on a new student, where it is null.
\<close>

theorem getGrade_mean_of_graded_witness:
  "0 < length (studentObjs (run twoGrades emptyWorld)) \<and>
   snd (getGrade 0 (run twoGrades emptyWorld)) = Some 60 \<and>
   overallGrade (studentObjs (fst (getGrade 0 (run twoGrades emptyWorld))) ! 0) = Some 60 \<and>
   snd (getGrade 0 (run [NewStudent ''Bob'' ''bob@example.org'' Observer] emptyWorld)) = None"
proof -
  have h: "0 < length (studentObjs (run twoGrades emptyWorld))"
    by (simp add: twoGrades_students)
  have h': "0 < length (studentObjs (run [NewStudent ''Bob'' ''bob@example.org'' Observer] emptyWorld))"
    by (simp add: eval_defs)
  show ?thesis
    using h getGrade_mean_of_graded [OF h] getGrade_mean_of_graded [OF h']
    by (simp add: twoGrades_students meanOfGraded_def List.map_filter_simps)
       (simp add: eval_defs List.map_filter_simps)
qed

text \<open>
  Claim C7. For every class list and assignment name n, sendReminder(n) passes over every
  student who lacks an assignment named n or whose assignment named n has status pass or
  fail: such a roster entry changes nothing (no notification, no callback), the student
  is the same after the whole call, and the call does what it does on the roster without
  these students. For every other roster entry it sets the status to final reminder,
  emits one notification through the class list's observer (the guarded call: no line
  when the class list has no observer with a notify function), and then calls the
  student's submitAssignment(n).
\<close>

theorem sendReminder_skips_and_reminds:
  "(skipsReminder n (studentObjs w ! r) \<longrightarrow>
      remindStudent c n r w = w \<and>
      studentObjs (sendReminder c n w) ! r = studentObjs w ! r) \<and>
   sendReminder c n w =
     fold (remindStudent c n)
       (filter (\<lambda>r. \<not> skipsReminder n (studentObjs w ! r)) (students (classListObjs w ! c))) w \<and>
   (r < length (studentObjs w) \<and> findAssignment (studentObjs w ! r) n = Some i \<and>
    \<not> skipsReminder n (studentObjs w ! r) \<longrightarrow>
      remindStudent c n r w =
        submitAssignment r n
          (w\<lparr>studentObjs := (studentObjs w)
                [r := modifyAssignment i (\<lambda>a. a\<lparr>status := ''final reminder''\<rparr>)
                        (studentObjs w ! r)],
             console := console w @
                (if hasNotify (classListObserver (classListObjs w ! c))
                 then [notifyMessage (fullName (studentObjs w ! r)) n ''final reminder'']
                 else [])\<rparr>))"
proof (intro conjI impI)
  assume "skipsReminder n (studentObjs w ! r)"
  then show "remindStudent c n r w = w" by (rule remindStudent_skip)
next
  assume "skipsReminder n (studentObjs w ! r)"
  then show "studentObjs (sendReminder c n w) ! r = studentObjs w ! r"
    unfolding sendReminder_def by (rule fold_remindStudent_untouched)
next
  show "sendReminder c n w =
     fold (remindStudent c n)
       (filter (\<lambda>r. \<not> skipsReminder n (studentObjs w ! r)) (students (classListObjs w ! c))) w"
    unfolding sendReminder_def by (rule fold_remindStudent_filter) simp
next
  assume a: "r < length (studentObjs w) \<and> findAssignment (studentObjs w ! r) n = Some i \<and>
    \<not> skipsReminder n (studentObjs w ! r)"
  then have "status (assignmentStatuses (studentObjs w ! r) ! i) \<noteq> ''pass''"
    "status (assignmentStatuses (studentObjs w ! r) ! i) \<noteq> ''fail''"
    by (auto simp: skipsReminder_def)
  with a show "remindStudent c n r w =
        submitAssignment r n
          (w\<lparr>studentObjs := (studentObjs w)
                [r := modifyAssignment i (\<lambda>a. a\<lparr>status := ''final reminder''\<rparr>)
                        (studentObjs w ! r)],
             console := console w @
                (if hasNotify (classListObserver (classListObjs w ! c))
                 then [notifyMessage (fullName (studentObjs w ! r)) n ''final reminder'']
                 else [])\<rparr>)"
    by (simp add: remindStudent_effect)
qed

text \<open>
  Claim C7 on a roster of three: Ada's HW1 has status pass, Bob's HW1 is released, Cy has
  no HW1. The reminder acts on Bob alone: the console gets the reminder and then the
  submission notice, and one grading callback is queued.
\<close>

theorem sendReminder_skips_and_reminds_witness:
  "skipsReminder ''HW1'' (studentObjs (run reminderExample emptyWorld) ! 0) \<and>
   skipsReminder ''HW1'' (studentObjs (run reminderExample emptyWorld) ! 2) \<and>
   studentObjs (sendReminder 0 ''HW1'' (run reminderExample emptyWorld)) ! 0 =
     studentObjs (run reminderExample emptyWorld) ! 0 \<and>
   1 < length (studentObjs (run reminderExample emptyWorld)) \<and>
   findAssignment (studentObjs (run reminderExample emptyWorld) ! 1) ''HW1'' = Some 0 \<and>
   \<not> skipsReminder ''HW1'' (studentObjs (run reminderExample emptyWorld) ! 1) \<and>
   sendReminder 0 ''HW1'' (run reminderExample emptyWorld) =
     remindStudent 0 ''HW1'' 1 (run reminderExample emptyWorld) \<and>
   console (sendReminder 0 ''HW1'' (run reminderExample emptyWorld)) =
     console (run reminderExample emptyWorld) @
       [notifyMessage ''Bob'' ''HW1'' ''final reminder'', notifyMessage ''Bob'' ''HW1'' ''submitted''] \<and>
   timerQueue (sendReminder 0 ''HW1'' (run reminderExample emptyWorld)) = [Grading 1 0]"
proof -
  let ?w = "run reminderExample emptyWorld"
  have s0: "skipsReminder ''HW1'' (studentObjs ?w ! 0)"
    and s2: "skipsReminder ''HW1'' (studentObjs ?w ! 2)"
    and s1: "\<not> skipsReminder ''HW1'' (studentObjs ?w ! 1)"
    and f1: "findAssignment (studentObjs ?w ! 1) ''HW1'' = Some 0"
    and l1: "1 < length (studentObjs ?w)"
    by (simp_all add: reminderExample_students skipsReminder_def findAssignment_def)
  note t0 = sendReminder_skips_and_reminds [of "''HW1''" ?w 0 0 0]
  note t1 = sendReminder_skips_and_reminds [of "''HW1''" ?w 1 0 0]
  have u0: "studentObjs (sendReminder 0 ''HW1'' ?w) ! 0 = studentObjs ?w ! 0"
    using t0 s0 by blast
  have flt: "filter (\<lambda>r. \<not> skipsReminder ''HW1'' (studentObjs ?w ! r)) (students (classListObjs ?w ! 0)) = [1]"
    using s0 s1 s2 by (simp add: reminderExample_rest)
  have sr: "sendReminder 0 ''HW1'' ?w = remindStudent 0 ''HW1'' 1 ?w"
    using t1 flt by simp
  have eff: "remindStudent 0 ''HW1'' 1 ?w =
        submitAssignment 1 ''HW1''
          (?w\<lparr>studentObjs := (studentObjs ?w)
                [1 := modifyAssignment 0 (\<lambda>a. a\<lparr>status := ''final reminder''\<rparr>)
                        (studentObjs ?w ! 1)],
             console := console ?w @
                (if hasNotify (classListObserver (classListObjs ?w ! 0))
                 then [notifyMessage (fullName (studentObjs ?w ! 1)) ''HW1'' ''final reminder'']
                 else [])\<rparr>)"
    using t1 l1 f1 s1 by blast
  have c: "console (sendReminder 0 ''HW1'' ?w) =
     console ?w @ [notifyMessage ''Bob'' ''HW1'' ''final reminder'', notifyMessage ''Bob'' ''HW1'' ''submitted'']"
    unfolding sr eff
    by (simp add: reminderExample_students reminderExample_rest submitAssignment_def
        modifyAssignment_def modifyStudent_def notifyObserver_def Observer_notify_def
        findAssignment_def Let_def)
  have q: "timerQueue (sendReminder 0 ''HW1'' ?w) = [Grading 1 0]"
    unfolding sr eff
    by (simp add: reminderExample_students reminderExample_rest submitAssignment_def
        modifyAssignment_def modifyStudent_def notifyObserver_def Observer_notify_def
        findAssignment_def Let_def)
  show ?thesis
    using s0 s2 s1 f1 l1 u0 sr c q by simp
qed

text \<open>
  Claim C8. For every student and assignment name n, getAssignmentStatus(n) returns
  "Hasn't been assigned" when no assignment named n exists, "Pass" when the assignment's
  status is pass, "Fail" when it is fail, and the raw status otherwise; it never returns
  the internal tokens pass or fail. For a student of any execution from the empty state
  the result is one of "Pass", "Fail", "Hasn't been assigned", released, working, submitted
  and final reminder.
\<close>

theorem getAssignmentStatus_results:
  "(findAssignment s n = None \<longrightarrow> getAssignmentStatus s n = ''Hasn't been assigned'') \<and>
   (\<forall>i. findAssignment s n = Some i \<longrightarrow>
      (status (assignmentStatuses s ! i) = ''pass'' \<longrightarrow> getAssignmentStatus s n = ''Pass'') \<and>
      (status (assignmentStatuses s ! i) = ''fail'' \<longrightarrow> getAssignmentStatus s n = ''Fail'') \<and>
      (status (assignmentStatuses s ! i) \<noteq> ''pass'' \<and> status (assignmentStatuses s ! i) \<noteq> ''fail'' \<longrightarrow>
         getAssignmentStatus s n = status (assignmentStatuses s ! i))) \<and>
   getAssignmentStatus s n \<noteq> ''pass'' \<and> getAssignmentStatus s n \<noteq> ''fail'' \<and>
   (s \<in> set (studentObjs (run acts emptyWorld)) \<longrightarrow>
      getAssignmentStatus s n \<in> set [''Pass'', ''Fail'', ''Hasn't been assigned'',
        ''released'', ''working'', ''submitted'', ''final reminder''])"
proof -
  have "getAssignmentStatus s n \<in> set [''Pass'', ''Fail'', ''Hasn't been assigned'',
        ''released'', ''working'', ''submitted'', ''final reminder'']"
    if "s \<in> set (studentObjs (run acts emptyWorld))"
  proof (cases "findAssignment s n")
    case None
    then show ?thesis by (simp add: getAssignmentStatus_def)
  next
    case (Some i)
    then have "i < length (assignmentStatuses s)"
      by (auto simp: findAssignment_def dest: findIndex_Some)
    moreover have "list_all knownStatus (assignmentStatuses s)"
      using allKnown_reachable[of acts] that by (simp add: allStudents_def list_all_iff)
    ultimately have "knownStatus (assignmentStatuses s ! i)"
      by (simp add: list_all_length)
    then show ?thesis
      using Some by (auto simp: getAssignmentStatus_def knownStatus_def Let_def)
  qed
  then show ?thesis
    by (auto simp: getAssignmentStatus_def Let_def split: option.splits)
qed

text \<open>
  Claim C8 on a student holding HW1 with status fail, HW2 with status pass, HW3 released
  and no HW4.
\<close>

theorem getAssignmentStatus_results_witness:
  "studentObjs (run twoGrades emptyWorld) ! 0 \<in> set (studentObjs (run twoGrades emptyWorld)) \<and>
   findAssignment (studentObjs (run twoGrades emptyWorld) ! 0) ''HW1'' = Some 0 \<and>
   getAssignmentStatus (studentObjs (run twoGrades emptyWorld) ! 0) ''HW1'' = ''Fail'' \<and>
   findAssignment (studentObjs (run twoGrades emptyWorld) ! 0) ''HW2'' = Some 1 \<and>
   getAssignmentStatus (studentObjs (run twoGrades emptyWorld) ! 0) ''HW2'' = ''Pass'' \<and>
   findAssignment (studentObjs (run twoGrades emptyWorld) ! 0) ''HW3'' = Some 2 \<and>
   getAssignmentStatus (studentObjs (run twoGrades emptyWorld) ! 0) ''HW3'' = ''released'' \<and>
   findAssignment (studentObjs (run twoGrades emptyWorld) ! 0) ''HW4'' = None \<and>
   getAssignmentStatus (studentObjs (run twoGrades emptyWorld) ! 0) ''HW4'' = ''Hasn't been assigned''"
proof -
  let ?s = "studentObjs (run twoGrades emptyWorld) ! 0"
  have m: "?s \<in> set (studentObjs (run twoGrades emptyWorld))"
    by (simp add: twoGrades_students)
  have f: "findAssignment ?s ''HW1'' = Some 0" "findAssignment ?s ''HW2'' = Some 1"
    "findAssignment ?s ''HW3'' = Some 2" "findAssignment ?s ''HW4'' = None"
    by (simp_all add: twoGrades_students findAssignment_def)
  have st: "status (assignmentStatuses ?s ! 0) = ''fail''" "status (assignmentStatuses ?s ! 1) = ''pass''"
    "status (assignmentStatuses ?s ! 2) = ''released''"
    by (simp_all add: twoGrades_students)
  have "getAssignmentStatus ?s ''HW1'' = ''Fail''"
    using getAssignmentStatus_results [of ?s "''HW1''" twoGrades] f(1) st(1) by blast
  moreover have "getAssignmentStatus ?s ''HW2'' = ''Pass''"
    using getAssignmentStatus_results [of ?s "''HW2''" twoGrades] f(2) st(2) by blast
  moreover have "getAssignmentStatus ?s ''HW3'' = ''released''"
    using getAssignmentStatus_results [of ?s "''HW3''" twoGrades] f(3) st(3) by simp
  moreover have "getAssignmentStatus ?s ''HW4'' = ''Hasn't been assigned''"
    using getAssignmentStatus_results [of ?s "''HW4''" twoGrades] f(4) by blast
  ultimately show ?thesis
    using m f by blast
qed




text \<open>
  Claim C10. For every student and assignment name n, startWorking(n) sets the status of
  the assignment named n to working whatever it was: an existing assignment keeps its
  place, its grade and its isSubmitted flag, also when it was submitted or graded with
  status pass or fail; an absent one is created with status working.
\<close>

theorem startWorking_always_sets_working:
  assumes "r < length (studentObjs w)"
  shows "(\<forall>i. findAssignment (studentObjs w ! r) n = Some i \<longrightarrow>
            findAssignment (studentObjs (startWorking r n w) ! r) n = Some i \<and>
            status (assignmentStatuses (studentObjs (startWorking r n w) ! r) ! i) = ''working'' \<and>
            grade (assignmentStatuses (studentObjs (startWorking r n w) ! r) ! i) =
              grade (assignmentStatuses (studentObjs w ! r) ! i) \<and>
            isSubmitted (assignmentStatuses (studentObjs (startWorking r n w) ! r) ! i) =
              isSubmitted (assignmentStatuses (studentObjs w ! r) ! i)) \<and>
         (findAssignment (studentObjs w ! r) n = None \<longrightarrow>
            findAssignment (studentObjs (startWorking r n w) ! r) n =
              Some (length (assignmentStatuses (studentObjs w ! r))) \<and>
            assignmentStatuses (studentObjs (startWorking r n w) ! r) =
              assignmentStatuses (studentObjs w ! r) @
              [\<lparr>assignmentName = n, status = ''working'', grade = None, isSubmitted = False\<rparr>])"
  using assms
  by (auto simp: startWorking_students startS_found startS_new)
     (simp add: startS_def Assignment_def)

text \<open>
  Claim C10 on Ada's HW1 after it was submitted and graded 80 with status pass:
  startWorking makes the status working and keeps the grade 80 and isSubmitted.
\<close>

theorem startWorking_always_sets_working_witness:
  "0 < length (studentObjs (run gradedOnce emptyWorld)) \<and>
   findAssignment (studentObjs (run gradedOnce emptyWorld) ! 0) ''HW1'' = Some 0 \<and>
   status (assignmentStatuses (studentObjs (run gradedOnce emptyWorld) ! 0) ! 0) = ''pass'' \<and>
   status (assignmentStatuses
      (studentObjs (startWorking 0 ''HW1'' (run gradedOnce emptyWorld)) ! 0) ! 0) = ''working'' \<and>
   grade (assignmentStatuses
      (studentObjs (startWorking 0 ''HW1'' (run gradedOnce emptyWorld)) ! 0) ! 0) = Some 80 \<and>
   isSubmitted (assignmentStatuses
      (studentObjs (startWorking 0 ''HW1'' (run gradedOnce emptyWorld)) ! 0) ! 0)"
proof -
  have h: "0 < length (studentObjs (run gradedOnce emptyWorld))"
    by (simp add: gradedOnce_students)
  have f: "findAssignment (studentObjs (run gradedOnce emptyWorld) ! 0) ''HW1'' = Some 0"
    by (simp add: gradedOnce_students findAssignment_def)
  show ?thesis
    using h f startWorking_always_sets_working [OF h, of "''HW1''"]
    by (simp add: gradedOnce_students)
qed

end
